theory Spec2Isabelle
  imports Complex_Main
begin

section \<open>JavaScript values used by the action\<close>

text \<open>
  The action (\<^verbatim>\<open>src/index.js\<close>) computes with three kinds of JavaScript values: numbers
  that are either whole or \<^verbatim>\<open>NaN\<close>, strings, and the value that \<^verbatim>\<open>JSON.parse\<close> returns.

  A number is \<open>NaN\<close> or \<open>Num n\<close> for a whole number \<open>n\<close>. The only arithmetic of the
  source is \<^verbatim>\<open>++currTry\<close>, starting from 1, and the only other operations are the
  comparisons \<^verbatim>\<open><=\<close> and \<^verbatim>\<open>>\<close> and the conversion to a string. On whole numbers
  of magnitude below \<open>2 ^ 53\<close> a JavaScript double computes these exactly, and \<open>Num\<close>
  stands for such a number; the rounding of larger doubles is not part of this model.
\<close>

datatype jsnum = NaN | Num int

text \<open>\<^verbatim>\<open>a <= b\<close> and \<^verbatim>\<open>a > b\<close>: every comparison with \<^verbatim>\<open>NaN\<close> is false.\<close>

fun js_le :: "jsnum \<Rightarrow> jsnum \<Rightarrow> bool" where
  "js_le (Num a) (Num b) = (a \<le> b)"
| "js_le _ _ = False"

fun js_gt :: "jsnum \<Rightarrow> jsnum \<Rightarrow> bool" where
  "js_gt (Num a) (Num b) = (a > b)"
| "js_gt _ _ = False"

text \<open>
  \<^verbatim>\<open>Number.prototype.toString()\<close> and the conversion inside a template literal: the
  decimal digits of a whole number, with a leading minus sign when it is negative, and
  the text \<^verbatim>\<open>NaN\<close>.
\<close>

definition digit_char :: "nat \<Rightarrow> char" where
  "digit_char d = ''0123456789'' ! d"

function dec_nat :: "nat \<Rightarrow> string" where
  "dec_nat n = (if n < 10 then [digit_char n] else dec_nat (n div 10) @ [digit_char (n mod 10)])"
  by pat_completeness auto
termination
  by (relation "measure (\<lambda>n. n)") auto

declare dec_nat.simps [simp del]

fun js_toString :: "jsnum \<Rightarrow> string" where
  "js_toString NaN = ''NaN''"
| "js_toString (Num i) = (if i < 0 then ''-'' @ dec_nat (nat (- i)) else dec_nat (nat i))"

text \<open>
  A thrown or rejected value is an error object, as the AWS SDK and the runtime produce
  them. The source reads two things from it: \<^verbatim>\<open>error.message\<close> in the top-level handler
  and \<^verbatim>\<open>JSON.stringify(err.originalError)\<close> in the verbose log of a failed try; the
  second field holds that text.
\<close>

datatype js_error = JsError (message: string) (originalError_json: string)

datatype json =
    JNull
  | JBool bool
  | JNumber real
  | JString string
  | JArray "json list"
  | JObject "(string \<times> json) list"

section \<open>Records of the action\<close>

text \<open>The configuration of \<^verbatim>\<open>new clientSTS.STSClient({region})\<close>.\<close>

record sts_config =
  sts_region :: string

text \<open>The input of \<^verbatim>\<open>new clientSTS.AssumeRoleCommand({RoleArn, RoleSessionName})\<close>.\<close>

record assume_role_command =
  RoleArn :: string
  RoleSessionName :: string

text \<open>
  The response of the identity provider. The SDK declares \<^verbatim>\<open>Credentials\<close> and each of its
  fields optional, so each may be \<^verbatim>\<open>undefined\<close> (\<open>None\<close>).
\<close>

record sts_credentials =
  AccessKeyId :: "string option"
  SecretAccessKey :: "string option"
  SessionToken :: "string option"

record assume_role_output =
  Credentials :: "sts_credentials option"

text \<open>The object that \<^verbatim>\<open>assumeRoleInAccount\<close> returns.\<close>

record credentials =
  accessKeyId :: "string option"
  secretAccessKey :: "string option"
  sessionToken :: "string option"
  region :: string

text \<open>
  The options object given to \<^verbatim>\<open>new AWS.ECS\<close>; its fields carry the prefix \<open>ecs_\<close> where
  the name is a field of \<open>credentials\<close> already. The connection object holds the options
  it was built from.
\<close>

record ecs_options =
  apiVersion :: string
  ecs_accessKeyId :: "string option"
  ecs_secretAccessKey :: "string option"
  ecs_sessionToken :: "string option"
  ecs_region :: string

datatype ecs_conn = ECS (config: ecs_options)

text \<open>
  The object that \<^verbatim>\<open>extractParams\<close> builds (\<open>p_region\<close> is its \<^verbatim>\<open>region\<close>, which is
  \<^verbatim>\<open>undefined\<close> when neither the input nor the environment gives one), and the same object
  after \<^verbatim>\<open>params['ecsConnection'] = ecsConnection\<close>.
\<close>

record params =
  p_region :: "string option"
  retries :: jsnum
  cluster :: string
  services :: json
  verbose :: bool
  assumeRole :: string

record run_params = params +
  ecsConnection :: ecs_conn

section \<open>Effects\<close>

text \<open>
  Everything the action does to its surroundings is an event, and a run is the list of
  its events in order: the reports through \<^verbatim>\<open>@actions/core\<close>, the console lines, the
  request sent to the identity provider, the construction of the ECS connection and each
  call of its \<^verbatim>\<open>waitFor\<close>.
\<close>

datatype event =
    SetFailed string
  | SetOutput string string
  | ConsoleInfo string
  | ConsoleWarn string
  | ConsoleError string
  | ConsoleLog string
  | StsSend sts_config assume_role_command
  | NewECS ecs_options
  | WaitFor ecs_conn string string json

fun is_WaitFor :: "event \<Rightarrow> bool" where
  "is_WaitFor (WaitFor _ _ _ _) = True"
| "is_WaitFor _ = False"

text \<open>The number of \<^verbatim>\<open>waitFor\<close> calls in a run.\<close>

definition waits :: "event list \<Rightarrow> nat" where
  "waits tr = length (filter is_WaitFor tr)"

fun failures :: "event list \<Rightarrow> string list" where
  "failures [] = []"
| "failures (SetFailed m # tr) = m # failures tr"
| "failures (_ # tr) = failures tr"

fun outputs :: "event list \<Rightarrow> (string \<times> string) list" where
  "outputs [] = []"
| "outputs (SetOutput k v # tr) = (k, v) # outputs tr"
| "outputs (_ # tr) = outputs tr"

text \<open>
  \<^verbatim>\<open>core.setFailed\<close> sets \<^verbatim>\<open>process.exitCode\<close> to 1 and nothing else of the action
  touches it, so the process ends with 1 when a failure was reported and with 0 otherwise.
\<close>

definition exit_code :: "event list \<Rightarrow> nat" where
  "exit_code tr = (if failures tr = [] then 0 else 1)"

text \<open>
  The surroundings of a run: what the host and the libraries answer. None of this is code
  of the repository, so each is a parameter and every theorem holds whatever they answer.
  \<^item> \<open>getInput\<close>: \<^verbatim>\<open>core.getInput(name)\<close>, the empty string when the input is not given;
  \<^item> \<open>env_AWS_REGION\<close>: \<^verbatim>\<open>process.env.AWS_REGION\<close>;
  \<^item> \<open>parseInt10\<close>: \<^verbatim>\<open>parseInt(s, 10)\<close>;
  \<^item> \<open>JSON_parse\<close>: \<^verbatim>\<open>JSON.parse(s)\<close>, which throws on malformed text;
  \<^item> \<open>new_STSClient_throws\<close>: the error that \<^verbatim>\<open>new clientSTS.STSClient(options)\<close> throws, if
    it does (the SDK throws \<^verbatim>\<open>Region is missing\<close> when the region is the empty string);
  \<^item> \<open>sts_send\<close>: \<^verbatim>\<open>stsClient.send(command)\<close>, resolved or rejected;
  \<^item> \<open>typeError_read\<close>: the error the runtime throws when the named property is read
    from \<^verbatim>\<open>undefined\<close>;
  \<^item> \<open>new_ECS_throws\<close>: the error that \<^verbatim>\<open>new AWS.ECS(options)\<close> throws, if it does;
  \<^item> \<open>waitFor\<close>: the outcome of \<^verbatim>\<open>ecsConnection.waitFor(state, {cluster, services}).promise()\<close>;
    its first argument is the number of \<^verbatim>\<open>waitFor\<close> calls made before this one, since
    the service may answer differently each time.
\<close>

record world =
  getInput :: "string \<Rightarrow> string"
  env_AWS_REGION :: "string option"
  parseInt10 :: "string \<Rightarrow> jsnum"
  JSON_parse :: "string \<Rightarrow> js_error + json"
  sts_send :: "sts_config \<Rightarrow> assume_role_command \<Rightarrow> js_error + assume_role_output"
  typeError_read :: "string \<Rightarrow> js_error"
  new_ECS_throws :: "ecs_options \<Rightarrow> js_error option"
  new_STSClient_throws :: "sts_config \<Rightarrow> js_error option"
  waitFor :: "nat \<Rightarrow> ecs_conn \<Rightarrow> string \<Rightarrow> string \<Rightarrow> json \<Rightarrow> js_error + unit"

section \<open>The stability check and the retry loop\<close>

text \<open>
  \<^verbatim>\<open>waitForStability\<close> (lines 17-18): one \<^verbatim>\<open>waitFor('servicesStable', {cluster, services})\<close>
  on the connection of the parameters. It takes the run so far and returns the run with
  the call added, and the outcome.
\<close>

definition waitForStability :: "world \<Rightarrow> run_params \<Rightarrow> event list \<Rightarrow> event list \<times> (js_error + unit)" where
  "waitForStability w rp tr =
     (tr @ [WaitFor (ecsConnection rp) ''servicesStable'' (cluster rp) (services rp)],
      waitFor w (waits tr) (ecsConnection rp) ''servicesStable'' (cluster rp) (services rp))"

text \<open>The variables of \<^verbatim>\<open>retry\<close> (lines 28-48), and the run so far.\<close>

record loop_state =
  currTry :: int
  isStable :: bool
  trace :: "event list"

text \<open>The loop condition \<^verbatim>\<open>currTry <= retries && !isStable\<close>.\<close>

definition retry_cond :: "run_params \<Rightarrow> loop_state \<Rightarrow> bool" where
  "retry_cond rp s = (js_le (Num (currTry s)) (retries rp) \<and> \<not> isStable s)"

text \<open>The loop body: the \<^verbatim>\<open>try\<close> block, and the \<^verbatim>\<open>catch\<close> block that takes any error.\<close>

definition retry_body :: "world \<Rightarrow> run_params \<Rightarrow> loop_state \<Rightarrow> loop_state" where
  "retry_body w rp s =
     (let tr1 = trace s @
            (if verbose rp
             then [ConsoleInfo (''Waiting for service stability, try #'' @ js_toString (Num (currTry s)))]
             else [])
      in case waitForStability w rp tr1 of
           (tr2, Inr _) \<Rightarrow> s\<lparr>isStable := True, trace := tr2\<rparr>
         | (tr2, Inl err) \<Rightarrow>
             s\<lparr>currTry := currTry s + 1,
               trace := tr2 @
                 (if verbose rp
                  then [ConsoleWarn (''Try task #'' @ js_toString (Num (currTry s)) @
                          '' failed! Error information: '' @ originalError_json err)]
                  else [])\<rparr>)"

text \<open>
  The loop ends: each turn either sets \<^verbatim>\<open>isStable\<close> or moves \<^verbatim>\<open>currTry\<close> one step
  closer to the bound, and with \<^verbatim>\<open>retries = NaN\<close> the condition is false at once.
\<close>

definition retry_measure :: "run_params \<Rightarrow> loop_state \<Rightarrow> nat" where
  "retry_measure rp s =
     (case retries rp of NaN \<Rightarrow> 0 | Num n \<Rightarrow> nat (n + 1 - currTry s)) + (if isStable s then 0 else 1)"

function retry_loop :: "world \<Rightarrow> run_params \<Rightarrow> loop_state \<Rightarrow> loop_state" where
  "retry_loop w rp s = (if retry_cond rp s then retry_loop w rp (retry_body w rp s) else s)"
  by pat_completeness auto
termination
proof (relation "measure (\<lambda>(w, rp, s). retry_measure rp s)")
  show "wf (measure (\<lambda>(w, rp, s). retry_measure rp s))"
    by simp
next
  fix w :: world and rp :: run_params and s :: loop_state
  assume "retry_cond rp s"
  then obtain n where n: "retries rp = Num n" and le: "currTry s \<le> n" and ns: "\<not> isStable s"
    by (cases "retries rp") (simp_all add: retry_cond_def)
  have "retry_measure rp (retry_body w rp s) < retry_measure rp s"
  proof (cases "snd (waitForStability w rp (trace s @
            (if verbose rp
             then [ConsoleInfo (''Waiting for service stability, try #'' @ js_toString (Num (currTry s)))]
             else [])))")
    case (Inl e)
    then show ?thesis using n le ns
      by (simp add: retry_measure_def retry_body_def waitForStability_def Let_def)
  next
    case (Inr u)
    then show ?thesis using n le ns
      by (simp add: retry_measure_def retry_body_def waitForStability_def Let_def)
  qed
  then show "((w, rp, retry_body w rp s), (w, rp, s)) \<in> measure (\<lambda>(w, rp, s). retry_measure rp s)"
    by simp
qed

declare retry_loop.simps [simp del]

text \<open>
  \<^verbatim>\<open>retry\<close>: the loop from \<^verbatim>\<open>currTry = 1\<close>, \<^verbatim>\<open>isStable = false\<close>; it returns \<^verbatim>\<open>currTry\<close>,
  here together with the events of the loop. No check is made before \<^verbatim>\<open>retry\<close> is called,
  so the loop starts from the empty run.
\<close>

definition retry_init :: loop_state where
  "retry_init = \<lparr>currTry = 1, isStable = False, trace = []\<rparr>"

definition retry :: "world \<Rightarrow> run_params \<Rightarrow> event list \<times> int" where
  "retry w rp = (let s = retry_loop w rp retry_init in (trace s, currTry s))"

section \<open>Credentials and the connection\<close>

text \<open>
  Line 5: the identity-provider client is built when the module is loaded, before
  \<^verbatim>\<open>main\<close> is called and outside its \<^verbatim>\<open>try\<close> block, from the \<^verbatim>\<open>aws-region\<close> input alone
  (the environment is not consulted). \<open>stsClient_options\<close> is the options object, and
  \<open>stsClient\<close> the construction: \<open>Inl e\<close> when the constructor throws \<open>e\<close>, and otherwise
  the client, which holds its options.
\<close>

definition stsClient_options :: "world \<Rightarrow> sts_config" where
  "stsClient_options w = \<lparr>sts_region = getInput w ''aws-region''\<rparr>"

definition stsClient :: "world \<Rightarrow> js_error + sts_config" where
  "stsClient w =
     (case new_STSClient_throws w (stsClient_options w) of
        Some e \<Rightarrow> Inl e
      | None \<Rightarrow> Inr (stsClient_options w))"

text \<open>\<^verbatim>\<open>createEcsConnection\<close> (lines 58-65).\<close>

definition createEcsConnection :: "world \<Rightarrow> credentials \<Rightarrow> event list \<times> (js_error + ecs_conn)" where
  "createEcsConnection w c =
     (let opts = \<lparr>apiVersion = ''2014-11-13'',
                  ecs_accessKeyId = accessKeyId c,
                  ecs_secretAccessKey = secretAccessKey c,
                  ecs_sessionToken = sessionToken c,
                  ecs_region = region c\<rparr>
      in ([NewECS opts],
          case new_ECS_throws w opts of Some e \<Rightarrow> Inl e | None \<Rightarrow> Inr (ECS opts)))"

text \<open>
  \<^verbatim>\<open>assumeRoleInAccount\<close> (lines 68-81). Reading \<^verbatim>\<open>assumedRole.Credentials.AccessKeyId\<close>
  throws when the response has no \<^verbatim>\<open>Credentials\<close>. The function runs only after line 5
  has built the client, so the client it sends with is the one with \<open>stsClient_options\<close>.
\<close>

definition assumeRoleInAccount :: "world \<Rightarrow> event list \<times> (js_error + credentials)" where
  "assumeRoleInAccount w =
     (let command = \<lparr>RoleArn = getInput w ''role-to-assume'', RoleSessionName = ''ecs-wait-action''\<rparr>
      in ([StsSend (stsClient_options w) command],
          case sts_send w (stsClient_options w) command of
            Inl e \<Rightarrow> Inl e
          | Inr assumedRole \<Rightarrow>
              (case Credentials assumedRole of
                 None \<Rightarrow> Inl (typeError_read w ''AccessKeyId'')
               | Some c \<Rightarrow>
                   Inr \<lparr>accessKeyId = AccessKeyId c,
                        secretAccessKey = SecretAccessKey c,
                        sessionToken = SessionToken c,
                        region = ''eu-central-1''\<rparr>)))"

section \<open>Parameters\<close>

text \<open>\<^verbatim>\<open>!v\<close> for a value that is a string or \<^verbatim>\<open>undefined\<close>.\<close>

definition falsy :: "string option \<Rightarrow> bool" where
  "falsy v = (v = None \<or> v = Some [])"

text \<open>
  \<^verbatim>\<open>extractParams\<close> (lines 90-108). Of the expressions of the object literal only
  \<^verbatim>\<open>JSON.parse\<close> can throw, and the others have no effect, so the throw comes first here.
  The result is \<open>None\<close> for \<^verbatim>\<open>null\<close>.
\<close>

definition extractParams :: "world \<Rightarrow> event list \<times> (js_error + params option)" where
  "extractParams w =
     (case JSON_parse w (getInput w ''ecs-services'') of
        Inl e \<Rightarrow> ([], Inl e)
      | Inr sv \<Rightarrow>
          (let params =
             \<lparr>p_region = (if getInput w ''aws-region'' \<noteq> [] then Some (getInput w ''aws-region'')
                          else env_AWS_REGION w),
              retries = parseInt10 w (getInput w ''retries''),
              cluster = getInput w ''ecs-cluster'',
              services = sv,
              verbose = (getInput w ''verbose'' = ''true''),
              assumeRole = getInput w ''role-to-assume''\<rparr>
           in if assumeRole params = [] \<or> falsy (p_region params)
              then ([SetFailed ''AWS credentials were not found in inputs or environment variables.''],
                    Inr None)
              else ([], Inr (Some params))))"

section \<open>The entry point\<close>

text \<open>\<^verbatim>\<open>params['ecsConnection'] = ecsConnection\<close> (line 125).\<close>

definition with_ecsConnection :: "params \<Rightarrow> ecs_conn \<Rightarrow> run_params" where
  "with_ecsConnection p conn =
     \<lparr>p_region = p_region p, retries = retries p, cluster = cluster p, services = services p,
      verbose = verbose p, assumeRole = assumeRole p, ecsConnection = conn\<rparr>"

text \<open>Lines 128-138: what \<^verbatim>\<open>main\<close> reports once \<^verbatim>\<open>retry\<close> has returned.\<close>

definition not_stable_message :: "jsnum \<Rightarrow> string" where
  "not_stable_message n = ''Service is not stable after '' @ js_toString n @ '' retries!''"

definition report :: "run_params \<Rightarrow> int \<Rightarrow> event list" where
  "report rp actualRetries =
     (if js_gt (Num actualRetries) (retries rp)
      then (if verbose rp then [ConsoleError (not_stable_message (retries rp))] else [])
           @ [SetFailed (not_stable_message (retries rp))]
      else (if verbose rp
            then [ConsoleLog (''Service is stable after '' @ js_toString (Num actualRetries) @ '' retries!'')]
            else [])
           @ [SetOutput ''retries'' (js_toString (Num actualRetries))])"

text \<open>
  The \<^verbatim>\<open>try\<close> block of \<^verbatim>\<open>main\<close> (lines 115-138), in the order of the source: the
  parameters, then the credentials, then the test of the parameters against \<^verbatim>\<open>null\<close>,
  then the connection, the retry loop and the report. \<open>Inl e\<close> is an error thrown out of
  the block.
\<close>

definition main_try :: "world \<Rightarrow> event list \<times> (js_error + unit)" where
  "main_try w =
     (case extractParams w of
        (tr1, Inl e) \<Rightarrow> (tr1, Inl e)
      | (tr1, Inr params) \<Rightarrow>
          (case assumeRoleInAccount w of
             (tr2, Inl e) \<Rightarrow> (tr1 @ tr2, Inl e)
           | (tr2, Inr credentials) \<Rightarrow>
               (case params of
                  None \<Rightarrow> (tr1 @ tr2, Inr ())
                | Some p \<Rightarrow>
                    (case createEcsConnection w credentials of
                       (tr3, Inl e) \<Rightarrow> (tr1 @ tr2 @ tr3, Inl e)
                     | (tr3, Inr ecsConn) \<Rightarrow>
                         (let rp = with_ecsConnection p ecsConn;
                              (tr4, actualRetries) = retry w rp
                          in (tr1 @ tr2 @ tr3 @ tr4 @ report rp actualRetries, Inr ()))))))"

text \<open>\<^verbatim>\<open>main\<close> (lines 113-142): the block, and the handler \<^verbatim>\<open>core.setFailed(error.message)\<close>.\<close>

definition main :: "world \<Rightarrow> event list" where
  "main w =
     (case main_try w of
        (tr, Inl error) \<Rightarrow> tr @ [SetFailed (message error)]
      | (tr, Inr _) \<Rightarrow> tr)"

text \<open>
  The module as a whole: line 5, and then the call \<^verbatim>\<open>main()\<close> of line 144. When the
  constructor of line 5 throws, the error is uncaught (\<open>Inl e\<close>): \<^verbatim>\<open>main\<close> is never called and
  nothing is reported through \<^verbatim>\<open>@actions/core\<close>. The statements about \<open>main\<close> are about the
  runs in which it is called.
\<close>

definition action :: "world \<Rightarrow> js_error + event list" where
  "action w = (case stsClient w of Inl e \<Rightarrow> Inl e | Inr client \<Rightarrow> Inr (main w))"

section \<open>Notions used by the statements\<close>

text \<open>
  The outcome of the stability check that is made when \<open>i\<close> checks were made before it:
  attempt \<open>k\<close> of the retry loop is \<open>check_result w rp (k - 1)\<close>. It fails when the
  outcome is a rejection (\<open>isl\<close>).
\<close>

definition check_result :: "world \<Rightarrow> run_params \<Rightarrow> nat \<Rightarrow> js_error + unit" where
  "check_result w rp i = waitFor w i (ecsConnection rp) ''servicesStable'' (cluster rp) (services rp)"

text \<open>A run in which the client of the role request has the region \<open>r\<close> instead.\<close>

fun with_sts_region :: "string \<Rightarrow> event \<Rightarrow> event" where
  "with_sts_region r (StsSend cfg cmd) = StsSend (cfg\<lparr>sts_region := r\<rparr>) cmd"
| "with_sts_region r e = e"

text \<open>The states the loop of \<^verbatim>\<open>retry\<close> passes through, at the test of its condition.\<close>

inductive retry_reach :: "world \<Rightarrow> run_params \<Rightarrow> loop_state \<Rightarrow> bool" for w rp where
  reach_init: "retry_reach w rp retry_init"
| reach_step: "retry_reach w rp s \<Longrightarrow> retry_cond rp s \<Longrightarrow> retry_reach w rp (retry_body w rp s)"

text \<open>The events that \<^verbatim>\<open>retry\<close> itself produces: console lines and \<^verbatim>\<open>waitFor\<close> calls.\<close>

fun retry_event :: "run_params \<Rightarrow> event \<Rightarrow> bool" where
  "retry_event rp (ConsoleInfo _) = True"
| "retry_event rp (ConsoleWarn _) = True"
| "retry_event rp (WaitFor conn st cl sv) =
     (conn = ecsConnection rp \<and> st = ''servicesStable'' \<and> cl = cluster rp \<and> sv = services rp)"
| "retry_event rp _ = False"

section \<open>Sample surroundings for the examples\<close>

text \<open>
  The examples run the action in concrete surroundings. \<open>sample_parseInt\<close> reads an
  optional sign and the leading decimal digits of a text without leading blanks, and gives
  \<open>NaN\<close> when there is no digit, as \<^verbatim>\<open>parseInt(s, 10)\<close> does on such a text.
\<close>

definition digit_val :: "char \<Rightarrow> nat option" where
  "digit_val c = (let n = (of_char c :: nat) in if 48 \<le> n \<and> n \<le> 57 then Some (n - 48) else None)"

fun leading_digits :: "nat option \<Rightarrow> string \<Rightarrow> nat option" where
  "leading_digits acc [] = acc"
| "leading_digits acc (c # cs) =
     (case digit_val c of
        None \<Rightarrow> acc
      | Some d \<Rightarrow> leading_digits (Some (10 * (case acc of None \<Rightarrow> 0 | Some a \<Rightarrow> a) + d)) cs)"

definition sample_parseInt :: "string \<Rightarrow> jsnum" where
  "sample_parseInt s =
     (case s of
        [] \<Rightarrow> NaN
      | c # cs \<Rightarrow>
          if c = CHR ''-'' then (case leading_digits None cs of None \<Rightarrow> NaN | Some n \<Rightarrow> Num (- int n))
          else if c = CHR ''+'' then (case leading_digits None cs of None \<Rightarrow> NaN | Some n \<Rightarrow> Num (int n))
          else (case leading_digits None s of None \<Rightarrow> NaN | Some n \<Rightarrow> Num (int n)))"

text \<open>
  \<open>sample_JSON_parse\<close> reads an array of plain strings written without blanks and without
  escapes, the shape of the \<^verbatim>\<open>ecs-services\<close> input of the examples, and answers any other
  text with a syntax error (\<^verbatim>\<open>JSON.parse\<close> itself reads more).
\<close>

datatype scan_state = Open | Element | InString string | AfterString | Closed

fun scan_array :: "scan_state \<Rightarrow> json list \<Rightarrow> string \<Rightarrow> json list option" where
  "scan_array st acc [] = (if st = Closed then Some acc else None)"
| "scan_array Open acc (c # cs) = (if c = CHR ''['' then scan_array Element acc cs else None)"
| "scan_array Element acc (c # cs) = (if c = CHR 0x22 then scan_array (InString []) acc cs else None)"
| "scan_array (InString s) acc (c # cs) =
     (if c = CHR 0x22 then scan_array AfterString (acc @ [JString s]) cs
      else if c = CHR 0x5C then None
      else scan_array (InString (s @ [c])) acc cs)"
| "scan_array AfterString acc (c # cs) =
     (if c = CHR '','' then scan_array Element acc cs
      else if c = CHR '']'' then scan_array Closed acc cs
      else None)"
| "scan_array Closed acc (c # cs) = None"

definition sample_JSON_parse :: "string \<Rightarrow> js_error + json" where
  "sample_JSON_parse s =
     (case scan_array Open [] s of
        None \<Rightarrow> Inl (JsError ''Unexpected token in JSON'' ''undefined'')
      | Some xs \<Rightarrow> Inr (JArray xs))"

text \<open>The inputs of a run as a list of names and values; a name not listed is not given.\<close>

definition sample_getInput :: "(string \<times> string) list \<Rightarrow> string \<Rightarrow> string" where
  "sample_getInput inputs name = (case map_of inputs name of None \<Rightarrow> [] | Some v \<Rightarrow> v)"

definition sample_credentials :: assume_role_output where
  "sample_credentials =
     \<lparr>Credentials = Some \<lparr>AccessKeyId = Some ''ASIAEXAMPLE'',
                          SecretAccessKey = Some ''secret'',
                          SessionToken = Some ''token''\<rparr>\<rparr>"

text \<open>The error of the constructor of the identity-provider client for an empty region.\<close>

definition region_missing :: js_error where
  "region_missing = JsError ''Region is missing'' ''undefined''"

text \<open>
  Surroundings with the given inputs, no \<^verbatim>\<open>AWS_REGION\<close> in the environment, the given
  answer of the identity provider, the given behaviour of the ECS constructor, the given
  outcomes of the successive stability checks, and a constructor of the identity-provider
  client that throws for the empty region only.
\<close>

definition sample_world ::
  "(string \<times> string) list \<Rightarrow> (js_error + assume_role_output) \<Rightarrow> js_error option \<Rightarrow>
   (nat \<Rightarrow> js_error + unit) \<Rightarrow> world" where
  "sample_world inputs sts ctor outcome =
     \<lparr>getInput = sample_getInput inputs,
      env_AWS_REGION = None,
      parseInt10 = sample_parseInt,
      JSON_parse = sample_JSON_parse,
      sts_send = (\<lambda>cfg cmd. sts),
      typeError_read = (\<lambda>prop. JsError (''Cannot read properties of undefined (reading '' @ prop @ '')'') ''undefined''),
      new_ECS_throws = (\<lambda>opts. ctor),
      new_STSClient_throws = (\<lambda>cfg. if sts_region cfg = [] then Some region_missing else None),
      waitFor = (\<lambda>i conn st cl sv. outcome i)\<rparr>"

definition not_ready :: js_error where
  "not_ready = JsError ''Resource is not in the state servicesStable'' ''{}''"

text \<open>Checks that are rejected \<open>n\<close> times and resolve from then on, and checks that never resolve.\<close>

definition fails_first :: "nat \<Rightarrow> nat \<Rightarrow> js_error + unit" where
  "fails_first n i = (if i < n then Inl not_ready else Inr ())"

definition always_fails :: "nat \<Rightarrow> js_error + unit" where
  "always_fails i = Inl not_ready"

definition sample_services_text :: string where
  "sample_services_text =
     [CHR ''['', CHR 0x22, CHR ''s'', CHR ''v'', CHR ''c'', CHR ''A'', CHR 0x22, CHR '','',
      CHR 0x22, CHR ''s'', CHR ''v'', CHR ''c'', CHR ''B'', CHR 0x22, CHR '']'']"

text \<open>Inputs with the given text for \<^verbatim>\<open>retries\<close>, and the same inputs without \<^verbatim>\<open>role-to-assume\<close>.\<close>

definition sample_inputs :: "string \<Rightarrow> (string \<times> string) list" where
  "sample_inputs r =
     [(''aws-region'', ''eu-west-1''), (''retries'', r), (''ecs-cluster'', ''prod''),
      (''ecs-services'', sample_services_text),
      (''role-to-assume'', ''arn:aws:iam::123456789012:role/deploy'')]"

definition inputs_without_role :: "(string \<times> string) list" where
  "inputs_without_role =
     [(''aws-region'', ''eu-west-1''), (''retries'', ''3''), (''ecs-cluster'', ''prod''),
      (''ecs-services'', sample_services_text)]"

text \<open>The answer of the identity provider to a request whose \<^verbatim>\<open>RoleArn\<close> is empty.\<close>

definition role_rejected :: js_error where
  "role_rejected = JsError ''Value at roleArn failed to satisfy constraint'' ''undefined''"

text \<open>What \<^verbatim>\<open>extractParams\<close> and \<^verbatim>\<open>createEcsConnection\<close> give in the sample surroundings.\<close>

definition sample_params :: "jsnum \<Rightarrow> params" where
  "sample_params r =
     \<lparr>p_region = Some ''eu-west-1'', retries = r, cluster = ''prod'',
      services = JArray [JString ''svcA'', JString ''svcB''], verbose = False,
      assumeRole = ''arn:aws:iam::123456789012:role/deploy''\<rparr>"

definition sample_conn :: ecs_conn where
  "sample_conn = ECS \<lparr>apiVersion = ''2014-11-13'', ecs_accessKeyId = Some ''ASIAEXAMPLE'',
                       ecs_secretAccessKey = Some ''secret'', ecs_sessionToken = Some ''token'',
                       ecs_region = ''eu-central-1''\<rparr>"

text \<open>Parameters as \<^verbatim>\<open>retry\<close> receives them in the examples, with the given \<^verbatim>\<open>retries\<close>.\<close>

definition sample_run_params :: "jsnum \<Rightarrow> run_params" where
  "sample_run_params r =
     \<lparr>p_region = Some ''eu-west-1'', retries = r, cluster = ''prod'',
      services = JArray [JString ''svcA'', JString ''svcB''], verbose = False,
      assumeRole = ''arn:aws:iam::123456789012:role/deploy'',
      ecsConnection = ECS \<lparr>apiVersion = ''2014-11-13'', ecs_accessKeyId = Some ''ASIAEXAMPLE'',
                            ecs_secretAccessKey = Some ''secret'', ecs_sessionToken = Some ''token'',
                            ecs_region = ''eu-central-1''\<rparr>\<rparr>"

text \<open>Inputs without \<^verbatim>\<open>aws-region\<close>, and inputs whose \<^verbatim>\<open>ecs-services\<close> is not JSON.\<close>

definition inputs_without_region :: "(string \<times> string) list" where
  "inputs_without_region =
     [(''retries'', ''3''), (''ecs-cluster'', ''prod''), (''ecs-services'', sample_services_text),
      (''role-to-assume'', ''arn:aws:iam::123456789012:role/deploy'')]"

definition inputs_with_bad_services :: "(string \<times> string) list" where
  "inputs_with_bad_services =
     [(''aws-region'', ''eu-west-1''), (''retries'', ''3''), (''ecs-cluster'', ''prod''),
      (''ecs-services'', ''svcA,svcB''),
      (''role-to-assume'', ''arn:aws:iam::123456789012:role/deploy'')]"

text \<open>Errors of the identity provider, of the ECS constructor and of a stability check.\<close>

definition access_denied :: js_error where
  "access_denied = JsError ''User is not authorized to perform: sts:AssumeRole'' ''undefined''"

definition bad_options :: js_error where
  "bad_options = JsError ''Could not find API configuration'' ''undefined''"

definition timed_out :: js_error where
  "timed_out = JsError ''Connection timed out'' ''{}''"

section \<open>The retry loop, turn by turn\<close>

lemma waits_append [simp]: "waits (a @ b) = waits a + waits b"
  by (simp add: waits_def)

lemma waits_simps [simp]:
  "waits [] = 0"
  "waits (WaitFor conn st cl sv # tr) = Suc (waits tr)"
  "waits (ConsoleInfo x # tr) = waits tr"
  "waits (ConsoleWarn x # tr) = waits tr"
  "waits (ConsoleError x # tr) = waits tr"
  "waits (ConsoleLog x # tr) = waits tr"
  "waits (SetFailed x # tr) = waits tr"
  "waits (SetOutput y x # tr) = waits tr"
  "waits (StsSend cfg cmd # tr) = waits tr"
  "waits (NewECS opts # tr) = waits tr"
  by (simp_all add: waits_def)

lemma retry_body_rejected:
  assumes "check_result w rp (waits (trace s)) = Inl err"
  shows "retry_body w rp s =
           s\<lparr>currTry := currTry s + 1,
             trace := trace s @
               (if verbose rp
                then [ConsoleInfo (''Waiting for service stability, try #'' @ js_toString (Num (currTry s)))]
                else []) @
               [WaitFor (ecsConnection rp) ''servicesStable'' (cluster rp) (services rp)] @
               (if verbose rp
                then [ConsoleWarn (''Try task #'' @ js_toString (Num (currTry s)) @
                        '' failed! Error information: '' @ originalError_json err)]
                else [])\<rparr>"
  using assms by (simp add: retry_body_def waitForStability_def check_result_def Let_def)

lemma retry_body_resolved:
  assumes "check_result w rp (waits (trace s)) = Inr u"
  shows "retry_body w rp s =
           s\<lparr>isStable := True,
             trace := trace s @
               (if verbose rp
                then [ConsoleInfo (''Waiting for service stability, try #'' @ js_toString (Num (currTry s)))]
                else []) @
               [WaitFor (ecsConnection rp) ''servicesStable'' (cluster rp) (services rp)]\<rparr>"
  using assms by (simp add: retry_body_def waitForStability_def check_result_def Let_def)

lemma retry_body_waits: "waits (trace (retry_body w rp s)) = Suc (waits (trace s))"
  by (cases "check_result w rp (waits (trace s))")
     (simp_all add: retry_body_rejected retry_body_resolved)

lemma retry_body_failed:
  assumes "isl (check_result w rp (waits (trace s)))"
  shows "currTry (retry_body w rp s) = currTry s + 1" "isStable (retry_body w rp s) = isStable s"
  using assms by (cases "check_result w rp (waits (trace s))"; simp add: retry_body_rejected)+

lemma retry_body_succeeded:
  assumes "\<not> isl (check_result w rp (waits (trace s)))"
  shows "currTry (retry_body w rp s) = currTry s" "isStable (retry_body w rp s)"
  using assms by (cases "check_result w rp (waits (trace s))"; simp add: retry_body_resolved)+

lemma retry_loop_stop: "\<not> retry_cond rp s \<Longrightarrow> retry_loop w rp s = s"
  by (simp add: retry_loop.simps)

lemma retry_loop_turn: "retry_cond rp s \<Longrightarrow> retry_loop w rp s = retry_loop w rp (retry_body w rp s)"
  by (subst retry_loop.simps) simp

lemma retry_loop_success:
  assumes m: "retries rp = Num m" and k: "int k \<le> m"
    and ok: "\<not> isl (check_result w rp (k - 1))"
  shows "\<not> isStable s \<Longrightarrow> currTry s = int (waits (trace s)) + 1 \<Longrightarrow> waits (trace s) < k \<Longrightarrow>
         (\<forall>i. waits (trace s) \<le> i \<and> i < k - 1 \<longrightarrow> isl (check_result w rp i)) \<Longrightarrow>
         currTry (retry_loop w rp s) = int k \<and> isStable (retry_loop w rp s) \<and>
         waits (trace (retry_loop w rp s)) = k"
proof (induction "k - 1 - waits (trace s)" arbitrary: s)
  case 0
  then have c: "waits (trace s) = k - 1" by simp
  have cond: "retry_cond rp s"
    using 0 m k by (simp add: retry_cond_def)
  have ok': "\<not> isl (check_result w rp (waits (trace s)))" using ok c by simp
  let ?s' = "retry_body w rp s"
  have s': "currTry ?s' = currTry s" "isStable ?s'" "waits (trace ?s') = k"
    using retry_body_succeeded [OF ok'] retry_body_waits [of w rp s] c 0 by simp_all
  have "\<not> retry_cond rp ?s'" using s' by (simp add: retry_cond_def)
  then have "retry_loop w rp s = ?s'"
    using cond by (simp add: retry_loop_turn retry_loop_stop)
  then show ?case using s' 0 c by simp
next
  case (Suc d)
  then have lt: "waits (trace s) < k - 1" by simp
  have cond: "retry_cond rp s"
    using Suc m k by (simp add: retry_cond_def)
  have bad: "isl (check_result w rp (waits (trace s)))" using Suc.prems(4) lt by simp
  let ?s' = "retry_body w rp s"
  have s': "currTry ?s' = currTry s + 1" "isStable ?s' = isStable s" "waits (trace ?s') = Suc (waits (trace s))"
    using retry_body_failed [OF bad] retry_body_waits [of w rp s] by simp_all
  have "currTry (retry_loop w rp ?s') = int k \<and> isStable (retry_loop w rp ?s') \<and>
         waits (trace (retry_loop w rp ?s')) = k"
  proof (rule Suc.hyps(1))
    show "d = k - 1 - waits (trace ?s')" using Suc.hyps(2) s' by simp
    show "\<not> isStable ?s'" using s' Suc.prems by simp
    show "currTry ?s' = int (waits (trace ?s')) + 1" using s' Suc.prems by simp
    show "waits (trace ?s') < k" using s' lt by simp
    show "\<forall>i. waits (trace ?s') \<le> i \<and> i < k - 1 \<longrightarrow> isl (check_result w rp i)"
      using Suc.prems(4) s' by simp
  qed
  then show ?case using cond by (simp add: retry_loop_turn)
qed

lemma retry_loop_exhausted:
  assumes m: "retries rp = Num m"
    and bad: "\<forall>i. i < nat m \<longrightarrow> isl (check_result w rp i)"
  shows "\<not> isStable s \<Longrightarrow> currTry s = int (waits (trace s)) + 1 \<Longrightarrow> int (waits (trace s)) \<le> m \<Longrightarrow>
         currTry (retry_loop w rp s) = m + 1 \<and> \<not> isStable (retry_loop w rp s) \<and>
         int (waits (trace (retry_loop w rp s))) = m"
proof (induction "nat m - waits (trace s)" arbitrary: s)
  case 0
  then have c: "int (waits (trace s)) = m" by simp
  have "\<not> retry_cond rp s" using 0 m c by (simp add: retry_cond_def)
  then show ?case using 0 c by (simp add: retry_loop_stop)
next
  case (Suc d)
  then have lt: "waits (trace s) < nat m" by simp
  have cond: "retry_cond rp s"
    using Suc m lt by (simp add: retry_cond_def)
  have b: "isl (check_result w rp (waits (trace s)))" using bad lt by simp
  let ?s' = "retry_body w rp s"
  have s': "currTry ?s' = currTry s + 1" "isStable ?s' = isStable s" "waits (trace ?s') = Suc (waits (trace s))"
    using retry_body_failed [OF b] retry_body_waits [of w rp s] by simp_all
  have "currTry (retry_loop w rp ?s') = m + 1 \<and> \<not> isStable (retry_loop w rp ?s') \<and>
         int (waits (trace (retry_loop w rp ?s'))) = m"
  proof (rule Suc.hyps(1))
    show "d = nat m - waits (trace ?s')" using Suc.hyps(2) s' by simp
    show "\<not> isStable ?s'" using s' Suc.prems by simp
    show "currTry ?s' = int (waits (trace ?s')) + 1" using s' Suc.prems by simp
    show "int (waits (trace ?s')) \<le> m" using s' lt by simp
  qed
  then show ?case using cond by (simp add: retry_loop_turn)
qed

lemma retry_init_facts:
  "currTry retry_init = 1" "\<not> isStable retry_init" "trace retry_init = []"
  by (simp_all add: retry_init_def)

lemma retry_results:
  "snd (retry w rp) = currTry (retry_loop w rp retry_init)"
  "fst (retry w rp) = trace (retry_loop w rp retry_init)"
  by (simp_all add: retry_def Let_def)

section \<open>The run of the entry point, case by case\<close>

lemma failures_append [simp]: "failures (a @ b) = failures a @ failures b"
  by (induction a rule: failures.induct) simp_all

lemma outputs_append [simp]: "outputs (a @ b) = outputs a @ outputs b"
  by (induction a rule: outputs.induct) simp_all

lemma retry_events_quiet:
  "\<forall>e\<in>set tr. retry_event rp e \<Longrightarrow> failures tr = [] \<and> outputs tr = []"
proof (induction tr)
  case Nil
  show ?case by simp
next
  case (Cons e tr)
  then show ?case by (cases e) simp_all
qed

lemma retry_body_events:
  assumes "\<forall>e\<in>set (trace s). retry_event rp e"
  shows "\<forall>e\<in>set (trace (retry_body w rp s)). retry_event rp e"
  using assms
  by (cases "check_result w rp (waits (trace s))")
     (auto simp: retry_body_rejected retry_body_resolved simp del: js_toString.simps)

lemma retry_loop_events:
  "\<forall>e\<in>set (trace s). retry_event rp e \<Longrightarrow> \<forall>e\<in>set (trace (retry_loop w rp s)). retry_event rp e"
proof (induction w rp s rule: retry_loop.induct)
  case (1 w rp s)
  show ?case
  proof (cases "retry_cond rp s")
    case True
    with 1 retry_body_events [OF "1.prems"] show ?thesis by (simp add: retry_loop_turn)
  next
    case False
    with 1 show ?thesis by (simp add: retry_loop_stop)
  qed
qed

lemma retry_events: "\<forall>e\<in>set (fst (retry w rp)). retry_event rp e"
  using retry_loop_events [of retry_init rp w] by (simp add: retry_results retry_init_facts)

lemma retry_quiet: "failures (fst (retry w rp)) = []" "outputs (fst (retry w rp)) = []"
  using retry_events_quiet [OF retry_events] by simp_all

lemma report_failures:
  "failures (report rp n) = (if js_gt (Num n) (retries rp) then [not_stable_message (retries rp)] else [])"
  by (simp add: report_def)

lemma report_outputs:
  "outputs (report rp n) = (if js_gt (Num n) (retries rp) then [] else [(''retries'', js_toString (Num n))])"
  by (simp add: report_def)

lemma report_waits: "waits (report rp n) = 0"
  by (simp add: report_def)

lemma extractParams_Some:
  assumes "extractParams w = (tr1, Inr (Some p))"
  shows "tr1 = []"
    and "JSON_parse w (getInput w ''ecs-services'') = Inr (services p)"
    and "retries p = parseInt10 w (getInput w ''retries'')"
    and "cluster p = getInput w ''ecs-cluster''"
    and "verbose p = (getInput w ''verbose'' = ''true'')"
    and "assumeRole p = getInput w ''role-to-assume''"
    and "getInput w ''role-to-assume'' \<noteq> []"
  using assms
  by (auto simp: extractParams_def Let_def split: sum.splits if_splits)

lemma extractParams_None:
  assumes "extractParams w = (tr1, Inr None)"
  shows "tr1 = [SetFailed ''AWS credentials were not found in inputs or environment variables.'']"
  using assms
  by (auto simp: extractParams_def Let_def split: sum.splits if_splits)

lemma extractParams_Inl:
  assumes "extractParams w = (tr1, Inl e)"
  shows "tr1 = []" "JSON_parse w (getInput w ''ecs-services'') = Inl e"
  using assms
  by (auto simp: extractParams_def Let_def split: sum.splits if_splits)

lemma assumeRoleInAccount_events:
  "fst (assumeRoleInAccount w) =
     [StsSend (stsClient_options w) \<lparr>RoleArn = getInput w ''role-to-assume'', RoleSessionName = ''ecs-wait-action''\<rparr>]"
  by (simp add: assumeRoleInAccount_def Let_def)

lemma assumeRoleInAccount_region:
  "snd (assumeRoleInAccount w) = Inr c \<Longrightarrow> region c = ''eu-central-1''"
  by (auto simp: assumeRoleInAccount_def Let_def split: sum.splits option.splits)

lemma createEcsConnection_events:
  "fst (createEcsConnection w c) =
     [NewECS \<lparr>apiVersion = ''2014-11-13'', ecs_accessKeyId = accessKeyId c,
              ecs_secretAccessKey = secretAccessKey c, ecs_sessionToken = sessionToken c,
              ecs_region = region c\<rparr>]"
  by (simp add: createEcsConnection_def Let_def)

lemma createEcsConnection_conn:
  "snd (createEcsConnection w c) = Inr conn \<Longrightarrow>
     conn = ECS \<lparr>apiVersion = ''2014-11-13'', ecs_accessKeyId = accessKeyId c,
              ecs_secretAccessKey = secretAccessKey c, ecs_sessionToken = sessionToken c,
              ecs_region = region c\<rparr>"
  by (auto simp: createEcsConnection_def Let_def split: option.splits)

lemma with_ecsConnection_fields [simp]:
  "retries (with_ecsConnection p conn) = retries p"
  "verbose (with_ecsConnection p conn) = verbose p"
  "cluster (with_ecsConnection p conn) = cluster p"
  "services (with_ecsConnection p conn) = services p"
  "ecsConnection (with_ecsConnection p conn) = conn"
  by (simp_all add: with_ecsConnection_def)

text \<open>The ways a run can go, by the first stage that ends it.\<close>

lemma main_parse_error:
  assumes "snd (extractParams w) = Inl e"
  shows "main w = [SetFailed (message e)]" "main_try w = ([], Inl e)"
proof -
  obtain tr1 where "extractParams w = (tr1, Inl e)" using assms by (cases "extractParams w") simp
  with extractParams_Inl [OF this] show "main w = [SetFailed (message e)]" "main_try w = ([], Inl e)"
    by (simp_all add: main_def main_try_def)
qed

lemma main_credential_error:
  assumes "snd (extractParams w) = Inr po" and "snd (assumeRoleInAccount w) = Inl e"
  shows "main w = fst (extractParams w) @ fst (assumeRoleInAccount w) @ [SetFailed (message e)]"
    and "snd (main_try w) = Inl e"
  using assms
  by (cases "extractParams w"; cases "assumeRoleInAccount w"; simp add: main_def main_try_def)+

lemma main_no_params:
  assumes "snd (extractParams w) = Inr None" and "snd (assumeRoleInAccount w) = Inr c"
  shows "main w = fst (extractParams w) @ fst (assumeRoleInAccount w)"
    and "snd (main_try w) = Inr ()"
  using assms
  by (cases "extractParams w"; cases "assumeRoleInAccount w"; simp add: main_def main_try_def)+

lemma main_connection_error:
  assumes "snd (extractParams w) = Inr (Some p)" and "snd (assumeRoleInAccount w) = Inr c"
    and "snd (createEcsConnection w c) = Inl e"
  shows "main w = fst (assumeRoleInAccount w) @ fst (createEcsConnection w c) @ [SetFailed (message e)]"
    and "snd (main_try w) = Inl e"
proof -
  obtain tr1 where x: "extractParams w = (tr1, Inr (Some p))"
    using assms(1) by (cases "extractParams w") simp
  have "tr1 = []" using extractParams_Some(1) [OF x] .
  with x assms(2,3)
  show "main w = fst (assumeRoleInAccount w) @ fst (createEcsConnection w c) @ [SetFailed (message e)]"
    and "snd (main_try w) = Inl e"
    by (cases "assumeRoleInAccount w"; cases "createEcsConnection w c"; simp add: main_def main_try_def)+
qed

lemma main_retry:
  assumes "snd (extractParams w) = Inr (Some p)" and "snd (assumeRoleInAccount w) = Inr c"
    and "snd (createEcsConnection w c) = Inr conn"
  shows "main w = fst (assumeRoleInAccount w) @ fst (createEcsConnection w c) @
                  fst (retry w (with_ecsConnection p conn)) @
                  report (with_ecsConnection p conn) (snd (retry w (with_ecsConnection p conn)))"
    and "snd (main_try w) = Inr ()"
proof -
  obtain tr1 where x: "extractParams w = (tr1, Inr (Some p))"
    using assms(1) by (cases "extractParams w") simp
  have "tr1 = []" using extractParams_Some(1) [OF x] .
  with x assms(2,3)
  show "main w = fst (assumeRoleInAccount w) @ fst (createEcsConnection w c) @
                  fst (retry w (with_ecsConnection p conn)) @
                  report (with_ecsConnection p conn) (snd (retry w (with_ecsConnection p conn)))"
    and "snd (main_try w) = Inr ()"
    by (cases "assumeRoleInAccount w"; cases "createEcsConnection w c";
        cases "retry w (with_ecsConnection p conn)"; simp add: main_def main_try_def Let_def)+
qed

text \<open>The count that \<^verbatim>\<open>retry\<close> returns depends on which checks are rejected, not on the errors.\<close>

lemma retry_body_same_count:
  assumes "isl (check_result w' rp (waits (trace s'))) = isl (check_result w rp (waits (trace s)))"
    and "currTry s' = currTry s" and "isStable s' = isStable s"
  shows "currTry (retry_body w' rp s') = currTry (retry_body w rp s)"
    and "isStable (retry_body w' rp s') = isStable (retry_body w rp s)"
  using assms
  by (cases "isl (check_result w rp (waits (trace s)))";
      simp add: retry_body_failed retry_body_succeeded)+

lemma retry_loop_same_count:
  "(\<forall>i. isl (check_result w' rp i) = isl (check_result w rp i)) \<Longrightarrow>
   currTry s' = currTry s \<Longrightarrow> isStable s' = isStable s \<Longrightarrow> waits (trace s') = waits (trace s) \<Longrightarrow>
   currTry (retry_loop w' rp s') = currTry (retry_loop w rp s) \<and>
   isStable (retry_loop w' rp s') = isStable (retry_loop w rp s) \<and>
   waits (trace (retry_loop w' rp s')) = waits (trace (retry_loop w rp s))"
proof (induction w rp s arbitrary: s' rule: retry_loop.induct)
  case (1 w rp s)
  have cond: "retry_cond rp s' = retry_cond rp s"
    using "1.prems" by (simp add: retry_cond_def)
  show ?case
  proof (cases "retry_cond rp s")
    case True
    have same: "isl (check_result w' rp (waits (trace s'))) = isl (check_result w rp (waits (trace s)))"
      using "1.prems" by simp
    have "currTry (retry_loop w' rp (retry_body w' rp s')) = currTry (retry_loop w rp (retry_body w rp s)) \<and>
          isStable (retry_loop w' rp (retry_body w' rp s')) = isStable (retry_loop w rp (retry_body w rp s)) \<and>
          waits (trace (retry_loop w' rp (retry_body w' rp s'))) =
            waits (trace (retry_loop w rp (retry_body w rp s)))"
      using True "1.prems" retry_body_same_count [OF same]
      by (intro "1.IH") (simp_all add: retry_body_waits)
    with True cond show ?thesis by (simp add: retry_loop_turn)
  next
    case False
    with cond "1.prems" show ?thesis by (simp add: retry_loop_stop)
  qed
qed

lemma retry_same_count:
  assumes "\<forall>i. isl (check_result w' rp i) = isl (check_result w rp i)"
  shows "snd (retry w' rp) = snd (retry w rp)" "waits (fst (retry w' rp)) = waits (fst (retry w rp))"
  using retry_loop_same_count [OF assms, of retry_init retry_init]
  by (simp_all add: retry_results)

lemma stages_ignore_waitFor:
  "extractParams (w\<lparr>waitFor := f\<rparr>) = extractParams w"
  "assumeRoleInAccount (w\<lparr>waitFor := f\<rparr>) = assumeRoleInAccount w"
  "createEcsConnection (w\<lparr>waitFor := f\<rparr>) c = createEcsConnection w c"
  by (simp_all add: extractParams_def assumeRoleInAccount_def createEcsConnection_def stsClient_options_def Let_def
        split: sum.split option.split)

lemma main_ignores_check_errors:
  assumes "\<forall>i conn st cl sv. isl (f i conn st cl sv) = isl (waitFor w i conn st cl sv)"
  shows "failures (main (w\<lparr>waitFor := f\<rparr>)) = failures (main w)
       \<and> outputs (main (w\<lparr>waitFor := f\<rparr>)) = outputs (main w)
       \<and> waits (main (w\<lparr>waitFor := f\<rparr>)) = waits (main w)"
proof -
  let ?w' = "w\<lparr>waitFor := f\<rparr>"
  show ?thesis
  proof (cases "snd (extractParams w)")
    case (Inl e)
    then show ?thesis
      using main_parse_error(1) [of w e] main_parse_error(1) [of ?w' e]
      by (simp add: stages_ignore_waitFor)
  next
    case (Inr po)
    show ?thesis
    proof (cases "snd (assumeRoleInAccount w)")
      case (Inl e)
      then show ?thesis
        using main_credential_error(1) [of w po e] main_credential_error(1) [of ?w' po e] Inr
        by (simp add: stages_ignore_waitFor)
    next
      case c: (Inr c)
      show ?thesis
      proof (cases po)
        case None
        then show ?thesis
          using main_no_params(1) [of w c] main_no_params(1) [of ?w' c] Inr c
          by (simp add: stages_ignore_waitFor)
      next
        case (Some p)
        show ?thesis
        proof (cases "snd (createEcsConnection w c)")
          case (Inl e)
          then show ?thesis
            using main_connection_error(1) [of w p c e] main_connection_error(1) [of ?w' p c e] Inr c Some
            by (simp add: stages_ignore_waitFor)
        next
          case conn: (Inr conn)
          let ?rp = "with_ecsConnection p conn"
          have same: "\<forall>i. isl (check_result ?w' ?rp i) = isl (check_result w ?rp i)"
            using assms by (simp add: check_result_def)
          show ?thesis
            using main_retry(1) [of w p c conn] main_retry(1) [of ?w' p c conn] Inr c Some conn
              retry_same_count [OF same]
            by (simp add: stages_ignore_waitFor retry_quiet report_failures report_outputs report_waits
                  assumeRoleInAccount_events createEcsConnection_events del: js_toString.simps)
        qed
      qed
    qed
  qed
qed

lemma main_try_error_source:
  assumes "snd (main_try w) = Inl e"
  shows "snd (extractParams w) = Inl e \<or> snd (assumeRoleInAccount w) = Inl e \<or>
         (\<exists>c. snd (assumeRoleInAccount w) = Inr c \<and> snd (createEcsConnection w c) = Inl e)"
proof (cases "snd (extractParams w)")
  case (Inl e')
  with assms main_parse_error(2) [of w e'] show ?thesis by simp
next
  case (Inr po)
  show ?thesis
  proof (cases "snd (assumeRoleInAccount w)")
    case (Inl e')
    with assms main_credential_error(2) [of w po e'] Inr show ?thesis by simp
  next
    case c: (Inr c)
    show ?thesis
    proof (cases po)
      case None
      with assms main_no_params(2) [of w c] Inr c show ?thesis by simp
    next
      case (Some p)
      show ?thesis
      proof (cases "snd (createEcsConnection w c)")
        case (Inl e')
        with assms main_connection_error(2) [of w p c e'] Inr c Some show ?thesis by simp
      next
        case conn: (Inr conn)
        with assms main_retry(2) [of w p c conn] Inr c Some show ?thesis by simp
      qed
    qed
  qed
qed

lemma main_cases [case_names parse_error credential_error no_params connection_error reaches_retry]:
  obtains e where "snd (extractParams w) = Inl e"
  | po e where "snd (extractParams w) = Inr po" "snd (assumeRoleInAccount w) = Inl e"
  | c where "snd (extractParams w) = Inr None" "snd (assumeRoleInAccount w) = Inr c"
  | p c e where "snd (extractParams w) = Inr (Some p)" "snd (assumeRoleInAccount w) = Inr c"
      "snd (createEcsConnection w c) = Inl e"
  | p c conn where "snd (extractParams w) = Inr (Some p)" "snd (assumeRoleInAccount w) = Inr c"
      "snd (createEcsConnection w c) = Inr conn"
proof (cases "snd (extractParams w)")
  case (Inl e)
  then show ?thesis by (rule that(1))
next
  case (Inr po)
  show ?thesis
  proof (cases "snd (assumeRoleInAccount w)")
    case (Inl e)
    with Inr show ?thesis by (rule that(2))
  next
    case c: (Inr c)
    show ?thesis
    proof (cases po)
      case None
      with Inr c show ?thesis by (simp add: that(3))
    next
      case (Some p)
      show ?thesis
      proof (cases "snd (createEcsConnection w c)")
        case (Inl e)
        with Inr c Some show ?thesis by (simp add: that(4))
      next
        case conn: (Inr conn)
        with Inr c Some show ?thesis by (simp add: that(5))
      qed
    qed
  qed
qed

lemma extractParams_events:
  "fst (extractParams w) = [] \<or>
   fst (extractParams w) = [SetFailed ''AWS credentials were not found in inputs or environment variables.'']"
  by (simp add: extractParams_def Let_def split: sum.split)

lemma report_events:
  "e \<in> set (report rp n) \<Longrightarrow>
     (\<exists>m. e = ConsoleError m) \<or> (\<exists>m. e = ConsoleLog m) \<or> (\<exists>m. e = SetFailed m) \<or> (\<exists>k v. e = SetOutput k v)"
  by (auto simp: report_def simp del: js_toString.simps split: if_splits)

lemma main_WaitFor:
  assumes "WaitFor conn st cl sv \<in> set (main w)"
  obtains p c where "snd (extractParams w) = Inr (Some p)" "snd (assumeRoleInAccount w) = Inr c"
    "snd (createEcsConnection w c) = Inr conn" "st = ''servicesStable''" "cl = cluster p" "sv = services p"
proof (cases w rule: main_cases)
  case (parse_error e)
  with assms show ?thesis by (simp add: main_parse_error(1))
next
  case (credential_error po e)
  with assms extractParams_events [of w] show ?thesis
    by (auto simp: main_credential_error(1) assumeRoleInAccount_events)
next
  case (no_params c)
  with assms extractParams_events [of w] show ?thesis
    by (auto simp: main_no_params(1) assumeRoleInAccount_events)
next
  case (connection_error p c e)
  with assms show ?thesis
    by (simp add: main_connection_error(1) assumeRoleInAccount_events createEcsConnection_events)
next
  case (reaches_retry p c conn')
  let ?rp = "with_ecsConnection p conn'"
  from assms reaches_retry have "WaitFor conn st cl sv \<in> set (fst (retry w ?rp)) \<or>
      WaitFor conn st cl sv \<in> set (report ?rp (snd (retry w ?rp)))"
    by (simp add: main_retry(1) assumeRoleInAccount_events createEcsConnection_events)
  then have "WaitFor conn st cl sv \<in> set (fst (retry w ?rp))"
    using report_events [of "WaitFor conn st cl sv" ?rp] by auto
  with retry_events [of w ?rp] have "retry_event ?rp (WaitFor conn st cl sv)" by blast
  then have "conn = conn'" "st = ''servicesStable''" "cl = cluster p" "sv = services p" by simp_all
  with reaches_retry show ?thesis by (auto intro: that)
qed

lemma main_NewECS:
  assumes "NewECS opts \<in> set (main w)"
  obtains c where "snd (assumeRoleInAccount w) = Inr c"
    "opts = \<lparr>apiVersion = ''2014-11-13'', ecs_accessKeyId = accessKeyId c,
             ecs_secretAccessKey = secretAccessKey c, ecs_sessionToken = sessionToken c,
             ecs_region = region c\<rparr>"
proof (cases w rule: main_cases)
  case (parse_error e)
  with assms show ?thesis by (simp add: main_parse_error(1))
next
  case (credential_error po e)
  with assms extractParams_events [of w] show ?thesis
    by (auto simp: main_credential_error(1) assumeRoleInAccount_events)
next
  case (no_params c)
  with assms extractParams_events [of w] show ?thesis
    by (auto simp: main_no_params(1) assumeRoleInAccount_events)
next
  case (connection_error p c e)
  with assms that [of c] show ?thesis
    by (simp add: main_connection_error(1) assumeRoleInAccount_events createEcsConnection_events)
next
  case (reaches_retry p c conn')
  let ?rp = "with_ecsConnection p conn'"
  have "\<not> retry_event ?rp (NewECS opts)" by simp
  with retry_events [of w ?rp] have "NewECS opts \<notin> set (fst (retry w ?rp))" by blast
  moreover have "NewECS opts \<notin> set (report ?rp (snd (retry w ?rp)))"
    using report_events [of "NewECS opts" ?rp] by auto
  ultimately show ?thesis
    using assms reaches_retry that [of c]
    by (simp add: main_retry(1) assumeRoleInAccount_events createEcsConnection_events)
qed

lemma main_StsSend:
  assumes "StsSend cfg cmd \<in> set (main w)"
  shows "cfg = stsClient_options w"
    and "cmd = \<lparr>RoleArn = getInput w ''role-to-assume'', RoleSessionName = ''ecs-wait-action''\<rparr>"
proof -
  have "cfg = stsClient_options w \<and>
        cmd = \<lparr>RoleArn = getInput w ''role-to-assume'', RoleSessionName = ''ecs-wait-action''\<rparr>"
  proof (cases w rule: main_cases)
    case (parse_error e)
    with assms show ?thesis by (simp add: main_parse_error(1))
  next
    case (credential_error po e)
    with assms extractParams_events [of w] show ?thesis
      by (auto simp: main_credential_error(1) assumeRoleInAccount_events)
  next
    case (no_params c)
    with assms extractParams_events [of w] show ?thesis
      by (auto simp: main_no_params(1) assumeRoleInAccount_events)
  next
    case (connection_error p c e)
    with assms show ?thesis
      by (simp add: main_connection_error(1) assumeRoleInAccount_events createEcsConnection_events)
  next
    case (reaches_retry p c conn')
    let ?rp = "with_ecsConnection p conn'"
    have "\<not> retry_event ?rp (StsSend cfg cmd)" by simp
    with retry_events [of w ?rp] have "StsSend cfg cmd \<notin> set (fst (retry w ?rp))" by blast
    moreover have "StsSend cfg cmd \<notin> set (report ?rp (snd (retry w ?rp)))"
      using report_events [of "StsSend cfg cmd" ?rp] by auto
    ultimately show ?thesis
      using assms reaches_retry
      by (simp add: main_retry(1) assumeRoleInAccount_events createEcsConnection_events)
  qed
  then show "cfg = stsClient_options w"
    and "cmd = \<lparr>RoleArn = getInput w ''role-to-assume'', RoleSessionName = ''ecs-wait-action''\<rparr>"
    by simp_all
qed

text \<open>\<^verbatim>\<open>retry\<close> depends on the parameters it reads and on the outcomes of the checks only.\<close>

lemma retry_loop_reads:
  "waitFor w' = waitFor w \<Longrightarrow> retries rp' = retries rp \<Longrightarrow> verbose rp' = verbose rp \<Longrightarrow>
   cluster rp' = cluster rp \<Longrightarrow> services rp' = services rp \<Longrightarrow> ecsConnection rp' = ecsConnection rp \<Longrightarrow>
   retry_loop w' rp' s = retry_loop w rp s"
proof (induction w rp s rule: retry_loop.induct)
  case (1 w rp s)
  have cond: "retry_cond rp' s = retry_cond rp s"
    using "1.prems" by (simp add: retry_cond_def)
  have body: "retry_body w' rp' s = retry_body w rp s"
    using "1.prems" by (simp add: retry_body_def waitForStability_def)
  show ?case
  proof (cases "retry_cond rp s")
    case True
    with cond body "1.IH" "1.prems" show ?thesis by (simp add: retry_loop_turn)
  next
    case False
    with cond show ?thesis by (simp add: retry_loop_stop)
  qed
qed

lemma sts_free_events:
  "\<forall>e\<in>set tr. \<forall>cfg cmd. e \<noteq> StsSend cfg cmd \<Longrightarrow> map (with_sts_region r) tr = tr"
proof (induction tr)
  case Nil
  show ?case by simp
next
  case (Cons e tr)
  then show ?case by (cases e) simp_all
qed

lemma region_only_retargets_sts:
  assumes cfgd: "getInput w ''aws-region'' \<noteq> []" "r \<noteq> []"
    and same: "sts_send w \<lparr>sts_region = r\<rparr> = sts_send w \<lparr>sts_region = getInput w ''aws-region''\<rparr>"
  shows "main (w\<lparr>getInput := (getInput w)(''aws-region'' := r)\<rparr>) = map (with_sts_region r) (main w)"
proof -
  let ?w' = "w\<lparr>getInput := (getInput w)(''aws-region'' := r)\<rparr>"
  have inp: "getInput ?w' ''aws-region'' = r" "getInput ?w' ''retries'' = getInput w ''retries''"
    "getInput ?w' ''ecs-cluster'' = getInput w ''ecs-cluster''"
    "getInput ?w' ''ecs-services'' = getInput w ''ecs-services''"
    "getInput ?w' ''verbose'' = getInput w ''verbose''"
    "getInput ?w' ''role-to-assume'' = getInput w ''role-to-assume''"
    by simp_all
  have xs: "fst (extractParams ?w') = fst (extractParams w)"
    using cfgd by (simp add: extractParams_def inp Let_def falsy_def split: sum.split)
  have xr: "snd (extractParams ?w') =
      (case snd (extractParams w) of Inr (Some p) \<Rightarrow> Inr (Some (p\<lparr>p_region := Some r\<rparr>)) | x \<Rightarrow> x)"
    using cfgd by (simp add: extractParams_def inp Let_def falsy_def split: sum.split)
  have as: "snd (assumeRoleInAccount ?w') = snd (assumeRoleInAccount w)"
    using same by (simp add: assumeRoleInAccount_def stsClient_options_def inp Let_def split: sum.split option.split)
  have ae: "fst (assumeRoleInAccount ?w') = map (with_sts_region r) (fst (assumeRoleInAccount w))"
    by (simp add: assumeRoleInAccount_def stsClient_options_def inp Let_def)
  have ce: "createEcsConnection ?w' c = createEcsConnection w c" for c
    by (simp add: createEcsConnection_def)
  have xe: "map (with_sts_region r) (fst (extractParams w)) = fst (extractParams w)"
    using extractParams_events [of w] by auto
  show ?thesis
  proof (cases w rule: main_cases)
    case (parse_error e)
    then have "snd (extractParams ?w') = Inl e" using xr by simp
    with parse_error show ?thesis by (simp add: main_parse_error(1))
  next
    case (credential_error po e)
    then obtain po' where "snd (extractParams ?w') = Inr po'"
      using xr by (cases po) simp_all
    moreover have "snd (assumeRoleInAccount ?w') = Inl e" using as credential_error by simp
    ultimately show ?thesis
      using credential_error main_credential_error(1) [of ?w' po' e]
      by (simp add: main_credential_error(1) [of w po e] xs ae xe)
  next
    case (no_params c)
    then have "snd (extractParams ?w') = Inr None" using xr by simp
    moreover have "snd (assumeRoleInAccount ?w') = Inr c" using as no_params by simp
    ultimately show ?thesis
      using no_params main_no_params(1) [of ?w' c]
      by (simp add: main_no_params(1) [of w c] xs ae xe)
  next
    case (connection_error p c e)
    then have "snd (extractParams ?w') = Inr (Some (p\<lparr>p_region := Some r\<rparr>))" using xr by simp
    moreover have "snd (assumeRoleInAccount ?w') = Inr c" using as connection_error by simp
    moreover have "snd (createEcsConnection ?w' c) = Inl e" using ce connection_error by simp
    ultimately show ?thesis
      using connection_error main_connection_error(1) [of ?w' "p\<lparr>p_region := Some r\<rparr>" c e]
      by (simp add: main_connection_error(1) [of w p c e] ae ce createEcsConnection_events)
  next
    case (reaches_retry p c conn)
    let ?rp = "with_ecsConnection p conn"
    let ?rp' = "with_ecsConnection (p\<lparr>p_region := Some r\<rparr>) conn"
    have a: "snd (extractParams ?w') = Inr (Some (p\<lparr>p_region := Some r\<rparr>))"
      using xr reaches_retry by simp
    have b: "snd (assumeRoleInAccount ?w') = Inr c" using as reaches_retry by simp
    have c: "snd (createEcsConnection ?w' c) = Inr conn" using ce reaches_retry by simp
    have "retry_loop ?w' ?rp' retry_init = retry_loop w ?rp retry_init"
      by (rule retry_loop_reads) simp_all
    then have r: "retry ?w' ?rp' = retry w ?rp" by (simp add: retry_def)
    have rep: "report ?rp' n = report ?rp n" for n by (simp add: report_def del: js_toString.simps)
    have "map (with_sts_region r) (fst (retry w ?rp)) = fst (retry w ?rp)"
    proof (rule sts_free_events, intro ballI allI)
      fix e cfg cmd
      assume "e \<in> set (fst (retry w ?rp))"
      with retry_events [of w ?rp] have "retry_event ?rp e" by blast
      then show "e \<noteq> StsSend cfg cmd" by auto
    qed
    moreover have "map (with_sts_region r) (report ?rp n) = report ?rp n" for n
    proof (rule sts_free_events, intro ballI allI)
      fix e cfg cmd
      assume "e \<in> set (report ?rp n)"
      from report_events [OF this] show "e \<noteq> StsSend cfg cmd" by auto
    qed
    ultimately show ?thesis
      by (simp add: main_retry(1) [OF a b c] main_retry(1) [OF reaches_retry] r rep ae ce
            createEcsConnection_events)
  qed
qed

lemma main_null_params_requests_credentials:
  assumes "JSON_parse w (getInput w ''ecs-services'') = Inr sv"
    and "getInput w ''role-to-assume'' = []"
  shows "StsSend (stsClient_options w) \<lparr>RoleArn = getInput w ''role-to-assume'', RoleSessionName = ''ecs-wait-action''\<rparr>
           \<in> set (main w)"
    and "hd (main w) = SetFailed ''AWS credentials were not found in inputs or environment variables.''"
    and "NewECS opts \<notin> set (main w)"
    and "waits (main w) = 0"
proof -
  have x: "extractParams w =
      ([SetFailed ''AWS credentials were not found in inputs or environment variables.''], Inr None)"
    using assms by (auto simp: extractParams_def Let_def falsy_def)
  have "main w = SetFailed ''AWS credentials were not found in inputs or environment variables.'' #
      StsSend (stsClient_options w) \<lparr>RoleArn = getInput w ''role-to-assume'', RoleSessionName = ''ecs-wait-action''\<rparr> #
      (case snd (assumeRoleInAccount w) of Inl e \<Rightarrow> [SetFailed (message e)] | Inr c \<Rightarrow> [])"
  proof (cases "snd (assumeRoleInAccount w)")
    case (Inl e)
    with x main_credential_error(1) [of w None e] show ?thesis
      by (simp add: assumeRoleInAccount_events)
  next
    case (Inr c)
    with x main_no_params(1) [of w c] show ?thesis
      by (simp add: assumeRoleInAccount_events)
  qed
  then show "StsSend (stsClient_options w) \<lparr>RoleArn = getInput w ''role-to-assume'', RoleSessionName = ''ecs-wait-action''\<rparr>
           \<in> set (main w)"
    and "hd (main w) = SetFailed ''AWS credentials were not found in inputs or environment variables.''"
    and "NewECS opts \<notin> set (main w)"
    and "waits (main w) = 0"
    by (simp_all split: sum.split)
qed

section \<open>The action in the sample surroundings\<close>

text \<open>
  The text that \<open>js_toString\<close> gives for a whole number is its decimal numeral: read back
  digit by digit, it gives the number again.
\<close>

lemma digit_val_digit_char: "d < 10 \<Longrightarrow> digit_val (digit_char d) = Some d"
proof -
  assume "d < 10"
  then consider "d = 0" | "d = 1" | "d = 2" | "d = 3" | "d = 4" | "d = 5" | "d = 6" | "d = 7"
    | "d = 8" | "d = 9"
    by (auto simp: less_Suc_eq numeral_eq_Suc)
  then show ?thesis
    by cases (simp_all add: digit_val_def digit_char_def)
qed

lemma leading_digits_append:
  "\<forall>c\<in>set xs. digit_val c \<noteq> None \<Longrightarrow>
   leading_digits acc (xs @ ys) = leading_digits (leading_digits acc xs) ys"
  by (induction xs arbitrary: acc) auto

lemma dec_nat_digits: "\<forall>c\<in>set (dec_nat n). digit_val c \<noteq> None"
proof (induction n rule: dec_nat.induct)
  case (1 n)
  show ?case
  proof (cases "n < 10")
    case True
    then show ?thesis by (subst dec_nat.simps) (simp add: digit_val_digit_char)
  next
    case False
    with 1 show ?thesis by (subst dec_nat.simps) (simp add: digit_val_digit_char)
  qed
qed

lemma leading_digits_dec_nat: "leading_digits None (dec_nat n) = Some n"
proof (induction n rule: dec_nat.induct)
  case (1 n)
  show ?case
  proof (cases "n < 10")
    case True
    then show ?thesis by (subst dec_nat.simps) (simp add: digit_val_digit_char)
  next
    case False
    then have "leading_digits None (dec_nat n) =
        leading_digits (leading_digits None (dec_nat (n div 10))) [digit_char (n mod 10)]"
      by (subst dec_nat.simps) (simp add: leading_digits_append dec_nat_digits)
    also have "\<dots> = Some (10 * (n div 10) + n mod 10)"
      using False 1 by (simp add: digit_val_digit_char)
    finally show ?thesis by simp
  qed
qed

lemma dec_nat_first: "\<exists>c cs. dec_nat n = c # cs \<and> digit_val c \<noteq> None"
proof -
  have "dec_nat n \<noteq> []"
    by (subst dec_nat.simps) simp
  then obtain c cs where "dec_nat n = c # cs" by (cases "dec_nat n") auto
  with dec_nat_digits [of n] show ?thesis by auto
qed

lemma js_toString_read_back: "sample_parseInt (js_toString (Num i)) = Num i"
proof (cases "i < 0")
  case True
  then show ?thesis
    by (simp add: sample_parseInt_def leading_digits_dec_nat)
next
  case False
  obtain c cs where c: "dec_nat (nat i) = c # cs" "digit_val c \<noteq> None"
    using dec_nat_first by blast
  then have "c \<noteq> CHR ''-''" "c \<noteq> CHR ''+''"
    by (auto simp: digit_val_def)
  with False c leading_digits_dec_nat [of "nat i"] show ?thesis
    by (simp add: sample_parseInt_def)
qed

lemma sample_getInput_values:
  "sample_getInput (sample_inputs r) ''aws-region'' = ''eu-west-1''"
  "sample_getInput (sample_inputs r) ''retries'' = r"
  "sample_getInput (sample_inputs r) ''ecs-cluster'' = ''prod''"
  "sample_getInput (sample_inputs r) ''ecs-services'' = sample_services_text"
  "sample_getInput (sample_inputs r) ''verbose'' = []"
  "sample_getInput (sample_inputs r) ''role-to-assume'' = ''arn:aws:iam::123456789012:role/deploy''"
  by (simp_all add: sample_getInput_def sample_inputs_def)

lemma sample_services_parsed:
  "sample_JSON_parse sample_services_text = Inr (JArray [JString ''svcA'', JString ''svcB''])"
  by (simp add: sample_JSON_parse_def sample_services_text_def)

lemma sample_extractParams:
  "extractParams (sample_world (sample_inputs r) sts ctor outcome) =
     ([], Inr (Some (sample_params (sample_parseInt r))))"
  by (simp add: extractParams_def sample_world_def sample_getInput_values sample_services_parsed
        sample_params_def falsy_def)

lemma sample_assumeRoleInAccount:
  "assumeRoleInAccount (sample_world (sample_inputs r) (Inr sample_credentials) ctor outcome) =
     ([StsSend \<lparr>sts_region = ''eu-west-1''\<rparr>
         \<lparr>RoleArn = ''arn:aws:iam::123456789012:role/deploy'', RoleSessionName = ''ecs-wait-action''\<rparr>],
      Inr \<lparr>accessKeyId = Some ''ASIAEXAMPLE'', secretAccessKey = Some ''secret'',
           sessionToken = Some ''token'', region = ''eu-central-1''\<rparr>)"
  by (simp add: assumeRoleInAccount_def stsClient_options_def sample_world_def sample_getInput_values
        sample_credentials_def)

lemma sample_createEcsConnection:
  "createEcsConnection (sample_world inputs sts None outcome)
     \<lparr>accessKeyId = Some ''ASIAEXAMPLE'', secretAccessKey = Some ''secret'',
      sessionToken = Some ''token'', region = ''eu-central-1''\<rparr> =
     ([NewECS (config sample_conn)], Inr sample_conn)"
  by (simp add: createEcsConnection_def sample_world_def sample_conn_def Let_def)

lemma sample_with_ecsConnection:
  "with_ecsConnection (sample_params r) sample_conn = sample_run_params r"
  by (simp add: with_ecsConnection_def sample_params_def sample_run_params_def sample_conn_def)

lemma sample_check_result:
  "check_result (sample_world inputs sts ctor outcome) rp i = outcome i"
  by (simp add: check_result_def sample_world_def)

lemma sample_numbers:
  "sample_parseInt ''1'' = Num 1" "sample_parseInt ''2'' = Num 2" "sample_parseInt ''3'' = Num 3"
  "sample_parseInt ''abc'' = NaN" "sample_parseInt [] = NaN"
  by (simp_all add: sample_parseInt_def digit_val_def)

lemma small_decimals:
  "js_toString (Num 1) = ''1''" "js_toString (Num 2) = ''2''" "js_toString (Num 3) = ''3''"
  by (simp_all add: dec_nat.simps digit_char_def)

lemma sample_stage_results:
  "snd (extractParams (sample_world (sample_inputs r) (Inr sample_credentials) None outcome)) =
     Inr (Some (sample_params (sample_parseInt r)))"
  "snd (assumeRoleInAccount (sample_world (sample_inputs r) (Inr sample_credentials) None outcome)) =
     Inr \<lparr>accessKeyId = Some ''ASIAEXAMPLE'', secretAccessKey = Some ''secret'',
          sessionToken = Some ''token'', region = ''eu-central-1''\<rparr>"
  "snd (createEcsConnection (sample_world (sample_inputs r) (Inr sample_credentials) None outcome)
          \<lparr>accessKeyId = Some ''ASIAEXAMPLE'', secretAccessKey = Some ''secret'',
           sessionToken = Some ''token'', region = ''eu-central-1''\<rparr>) = Inr sample_conn"
  by (simp_all add: sample_extractParams sample_assumeRoleInAccount sample_createEcsConnection)

lemma retry_NaN:
  assumes "retries rp = NaN"
  shows "retry w rp = ([], 1)"
  using assms by (simp add: retry_def retry_loop_stop retry_cond_def retry_init_def)

lemma sample_retry_first_try:
  "retry (sample_world inputs sts ctor (fails_first 0)) (sample_run_params (Num 1)) =
     ([WaitFor sample_conn ''servicesStable'' ''prod'' (JArray [JString ''svcA'', JString ''svcB''])], 1)"
proof -
  let ?w = "sample_world inputs sts ctor (fails_first 0)"
  let ?rp = "sample_run_params (Num 1)"
  have c: "retry_cond ?rp retry_init"
    by (simp add: retry_cond_def retry_init_def sample_run_params_def)
  have b: "retry_body ?w ?rp retry_init =
      \<lparr>currTry = 1, isStable = True,
       trace = [WaitFor sample_conn ''servicesStable'' ''prod'' (JArray [JString ''svcA'', JString ''svcB''])]\<rparr>"
    using retry_body_resolved [of ?w ?rp retry_init "()"]
    by (simp add: sample_check_result fails_first_def retry_init_def sample_run_params_def sample_conn_def)
  have "retry_loop ?w ?rp retry_init =
      \<lparr>currTry = 1, isStable = True,
       trace = [WaitFor sample_conn ''servicesStable'' ''prod'' (JArray [JString ''svcA'', JString ''svcB''])]\<rparr>"
    by (simp add: retry_loop_turn [OF c] b retry_loop_stop retry_cond_def)
  then show ?thesis by (simp add: retry_def)
qed

lemma sample_run_params_fields:
  "retries (sample_run_params r) = r" "verbose (sample_run_params r) = False"
  by (simp_all add: sample_run_params_def)

lemma sample_messages:
  "message access_denied = ''User is not authorized to perform: sts:AssumeRole''"
  "message bad_options = ''Could not find API configuration''"
  by (simp_all add: access_denied_def bad_options_def)

lemma sample_main_first_try:
  "main (sample_world (sample_inputs ''1'') (Inr sample_credentials) None (fails_first 0)) =
     [StsSend \<lparr>sts_region = ''eu-west-1''\<rparr>
         \<lparr>RoleArn = ''arn:aws:iam::123456789012:role/deploy'', RoleSessionName = ''ecs-wait-action''\<rparr>,
      NewECS (config sample_conn),
      WaitFor sample_conn ''servicesStable'' ''prod'' (JArray [JString ''svcA'', JString ''svcB'']),
      SetOutput ''retries'' ''1'']"
  by (simp add: main_retry(1) [OF sample_stage_results [of "''1''" "fails_first 0"]]
        sample_assumeRoleInAccount sample_createEcsConnection sample_numbers sample_with_ecsConnection
        sample_retry_first_try report_def sample_run_params_fields small_decimals
      del: js_toString.simps)

text \<open>Without the \<^verbatim>\<open>aws-region\<close> input the module does not load, and \<^verbatim>\<open>main\<close> is not called.\<close>

lemma sample_action_without_region:
  "action (sample_world inputs_without_region sts ctor outcome) = Inl region_missing"
  by (simp add: action_def stsClient_def stsClient_options_def sample_world_def sample_getInput_def
        inputs_without_region_def)

section \<open>The claims about the retry loop\<close>

text \<open>
  Claim C1. For every \<^verbatim>\<open>retries\<close> \<open>m \<ge> 1\<close> and every \<open>k\<close> with \<open>1 \<le> k \<le> m\<close>: when the
  stability check is rejected on attempts \<open>1\<close> to \<open>k - 1\<close> and resolves on attempt \<open>k\<close>,
  \<^verbatim>\<open>retry\<close> returns \<open>k\<close> and has made exactly \<open>k\<close> checks. In particular, when the check
  always resolves, \<^verbatim>\<open>retry\<close> returns 1 after exactly one check.
\<close>

theorem retry_returns_first_success:
  assumes m: "retries rp = Num m" and m1: "1 \<le> m"
  shows "(\<forall>k. 1 \<le> k \<and> int k \<le> m \<and> (\<forall>i<k - 1. isl (check_result w rp i)) \<and>
              \<not> isl (check_result w rp (k - 1))
            \<longrightarrow> snd (retry w rp) = int k \<and> waits (fst (retry w rp)) = k)
       \<and> ((\<forall>i. \<not> isl (check_result w rp i))
            \<longrightarrow> snd (retry w rp) = 1 \<and> waits (fst (retry w rp)) = 1)"
proof -
  have first: "snd (retry w rp) = int k \<and> waits (fst (retry w rp)) = k"
    if k: "1 \<le> k" "int k \<le> m" and bad: "\<forall>i<k - 1. isl (check_result w rp i)"
      and ok: "\<not> isl (check_result w rp (k - 1))" for k
  proof -
    have "currTry (retry_loop w rp retry_init) = int k \<and> isStable (retry_loop w rp retry_init) \<and>
          waits (trace (retry_loop w rp retry_init)) = k"
      using k bad by (intro retry_loop_success [OF m k(2) ok]) (simp_all add: retry_init_facts)
    then show ?thesis by (simp add: retry_results)
  qed
  have "snd (retry w rp) = 1 \<and> waits (fst (retry w rp)) = 1" if "\<forall>i. \<not> isl (check_result w rp i)"
    using first [of 1] that m1 by simp
  with first show ?thesis by blast
qed

text \<open>
  With \<^verbatim>\<open>retries = 3\<close> and a check that is rejected twice and then resolves, \<^verbatim>\<open>retry\<close>
  returns 3 after 3 checks; with a check that resolves at once it returns 1 after one check.
\<close>

theorem retry_returns_first_success_witness:
  "snd (retry (sample_world (sample_inputs ''3'') (Inr sample_credentials) None (fails_first 2))
          (sample_run_params (Num 3))) = 3
   \<and> waits (fst (retry (sample_world (sample_inputs ''3'') (Inr sample_credentials) None (fails_first 2))
          (sample_run_params (Num 3)))) = 3
   \<and> snd (retry (sample_world (sample_inputs ''3'') (Inr sample_credentials) None (fails_first 0))
          (sample_run_params (Num 3))) = 1
   \<and> waits (fst (retry (sample_world (sample_inputs ''3'') (Inr sample_credentials) None (fails_first 0))
          (sample_run_params (Num 3)))) = 1"
proof -
  let ?rp = "sample_run_params (Num 3)"
  let ?w = "sample_world (sample_inputs ''3'') (Inr sample_credentials) None (fails_first 2)"
  let ?v = "sample_world (sample_inputs ''3'') (Inr sample_credentials) None (fails_first 0)"
  have r: "retries ?rp = Num 3" by (simp add: sample_run_params_def)
  have a: "1 \<le> (3::nat) \<and> int 3 \<le> 3 \<and> (\<forall>i<3 - 1. isl (check_result ?w ?rp i)) \<and>
           \<not> isl (check_result ?w ?rp (3 - 1))"
    by (simp add: check_result_def sample_world_def fails_first_def)
  have b: "\<forall>i. \<not> isl (check_result ?v ?rp i)"
    by (simp add: check_result_def sample_world_def fails_first_def)
  have one: "(1::int) \<le> 3" by simp
  from retry_returns_first_success [OF r one, of ?w] a
  have "snd (retry ?w ?rp) = int 3 \<and> waits (fst (retry ?w ?rp)) = 3" by blast
  moreover from retry_returns_first_success [OF r one, of ?v] b
  have "snd (retry ?v ?rp) = 1 \<and> waits (fst (retry ?v ?rp)) = 1" by blast
  ultimately show ?thesis by simp
qed

text \<open>
  Claim C2. For every \<^verbatim>\<open>retries\<close> \<open>m \<ge> 1\<close>: when the stability check is rejected on every
  attempt, \<^verbatim>\<open>retry\<close> returns \<open>m + 1\<close> and has made exactly \<open>m\<close> checks (the counter is
  moved past the bound before the loop condition is tested again).
\<close>

theorem retry_exhausted_returns_limit_plus_one:
  assumes m: "retries rp = Num m" and m1: "1 \<le> m"
    and bad: "\<forall>i. isl (check_result w rp i)"
  shows "snd (retry w rp) = m + 1 \<and> int (waits (fst (retry w rp))) = m"
proof -
  have "currTry (retry_loop w rp retry_init) = m + 1 \<and> \<not> isStable (retry_loop w rp retry_init) \<and>
        int (waits (trace (retry_loop w rp retry_init))) = m"
    using bad m1 by (intro retry_loop_exhausted [OF m]) (simp_all add: retry_init_facts)
  then show ?thesis by (simp add: retry_results)
qed

text \<open>With \<^verbatim>\<open>retries = 1\<close> and a check that never resolves: one check, and the result is 2.\<close>

theorem retry_exhausted_returns_limit_plus_one_witness:
  "snd (retry (sample_world (sample_inputs ''1'') (Inr sample_credentials) None always_fails)
          (sample_run_params (Num 1))) = 2
   \<and> waits (fst (retry (sample_world (sample_inputs ''1'') (Inr sample_credentials) None always_fails)
          (sample_run_params (Num 1)))) = 1"
proof -
  let ?rp = "sample_run_params (Num 1)"
  let ?w = "sample_world (sample_inputs ''1'') (Inr sample_credentials) None always_fails"
  have r: "retries ?rp = Num 1" by (simp add: sample_run_params_def)
  have b: "\<forall>i. isl (check_result ?w ?rp i)"
    by (simp add: check_result_def sample_world_def always_fails_def)
  from retry_exhausted_returns_limit_plus_one [OF r _ b] show ?thesis by simp
qed

lemma retry_loop_leaves: "\<not> retry_cond rp (retry_loop w rp s)"
proof (induction w rp s rule: retry_loop.induct)
  case (1 w rp s)
  show ?case
  proof (cases "retry_cond rp s")
    case True
    with 1 show ?thesis by (simp add: retry_loop_turn)
  next
    case False
    then show ?thesis by (simp add: retry_loop_stop)
  qed
qed

lemma retry_loop_reach: "retry_reach w rp s \<Longrightarrow> retry_reach w rp (retry_loop w rp s)"
proof (induction w rp s rule: retry_loop.induct)
  case (1 w rp s)
  show ?case
  proof (cases "retry_cond rp s")
    case True
    then have "retry_reach w rp (retry_body w rp s)"
      using "1.prems" by (rule reach_step [rotated])
    with True 1 show ?thesis by (simp add: retry_loop_turn)
  next
    case False
    with 1 show ?thesis by (simp add: retry_loop_stop)
  qed
qed

lemma retry_reach_inv:
  assumes m: "retries rp = Num m" and m1: "1 \<le> m"
  shows "retry_reach w rp s \<Longrightarrow>
     1 \<le> currTry s \<and> currTry s \<le> m + 1 \<and>
     (isStable s \<longrightarrow> currTry s = int (waits (trace s)) \<and> currTry s \<le> m \<and>
                      \<not> isl (check_result w rp (waits (trace s) - 1))) \<and>
     (\<not> isStable s \<longrightarrow> currTry s = int (waits (trace s)) + 1) \<and>
     (\<forall>i. int i < currTry s - 1 \<longrightarrow> isl (check_result w rp i))"
proof (induction rule: retry_reach.induct)
  case reach_init
  show ?case using m1 by (simp add: retry_init_facts)
next
  case (reach_step s)
  from reach_step.hyps(2) m have c: "currTry s \<le> m" "\<not> isStable s"
    by (simp_all add: retry_cond_def)
  with reach_step.IH have w: "currTry s = int (waits (trace s)) + 1" by simp
  show ?case
  proof (cases "isl (check_result w rp (waits (trace s)))")
    case True
    have "isl (check_result w rp i)" if "int i < currTry s" for i
    proof (cases "i = waits (trace s)")
      case True
      with \<open>isl (check_result w rp (waits (trace s)))\<close> show ?thesis by simp
    next
      case False
      with that w have "int i < currTry s - 1" by simp
      with reach_step.IH show ?thesis by simp
    qed
    then show ?thesis
      using retry_body_failed [OF True] retry_body_waits [of w rp s] c w reach_step.IH
      by simp
  next
    case False
    show ?thesis
      using retry_body_succeeded [OF False] retry_body_waits [of w rp s] c w reach_step.IH False
      by simp
  qed
qed

text \<open>
  Claim C6. The invariant of the loop of \<^verbatim>\<open>retry\<close>, for \<^verbatim>\<open>retries\<close> \<open>m \<ge> 1\<close>. In every state
  the loop passes through, the counter lies between 1 and \<open>m + 1\<close>, every attempt before
  the current one was rejected, and the counter is the number of checks made so far when
  the last of them resolved (then it is at most \<open>m\<close>, and it is the number \<open>k\<close> of the
  attempt that resolved) and one more than that number otherwise. The state in which the
  loop ends is such a state, its counter is what \<^verbatim>\<open>retry\<close> returns, and when the loop ends
  without a resolved check the counter is exactly \<open>m + 1\<close>.
\<close>

theorem retry_counter_invariant:
  assumes m: "retries rp = Num m" and m1: "1 \<le> m"
  shows "(\<forall>s. retry_reach w rp s \<longrightarrow>
            1 \<le> currTry s \<and> currTry s \<le> m + 1 \<and>
            (isStable s \<longrightarrow> currTry s = int (waits (trace s)) \<and> currTry s \<le> m \<and>
                             \<not> isl (check_result w rp (waits (trace s) - 1))) \<and>
            (\<not> isStable s \<longrightarrow> currTry s = int (waits (trace s)) + 1) \<and>
            (\<forall>i. int i < currTry s - 1 \<longrightarrow> isl (check_result w rp i)))
       \<and> retry_reach w rp (retry_loop w rp retry_init)
       \<and> snd (retry w rp) = currTry (retry_loop w rp retry_init)
       \<and> (\<not> isStable (retry_loop w rp retry_init) \<longrightarrow> snd (retry w rp) = m + 1)"
proof -
  let ?f = "retry_loop w rp retry_init"
  have r: "retry_reach w rp ?f"
    by (rule retry_loop_reach) (rule reach_init)
  have "currTry ?f = m + 1" if "\<not> isStable ?f"
  proof -
    have "\<not> retry_cond rp ?f" by (rule retry_loop_leaves)
    with that m have "m < currTry ?f" by (simp add: retry_cond_def)
    moreover have "currTry ?f \<le> m + 1" using retry_reach_inv [OF m m1 r] by simp
    ultimately show ?thesis by simp
  qed
  then have last: "\<not> isStable ?f \<longrightarrow> snd (retry w rp) = m + 1"
    by (simp add: retry_results)
  have res: "snd (retry w rp) = currTry ?f"
    by (simp add: retry_results)
  have inv: "\<forall>s. retry_reach w rp s \<longrightarrow>
            1 \<le> currTry s \<and> currTry s \<le> m + 1 \<and>
            (isStable s \<longrightarrow> currTry s = int (waits (trace s)) \<and> currTry s \<le> m \<and>
                             \<not> isl (check_result w rp (waits (trace s) - 1))) \<and>
            (\<not> isStable s \<longrightarrow> currTry s = int (waits (trace s)) + 1) \<and>
            (\<forall>i. int i < currTry s - 1 \<longrightarrow> isl (check_result w rp i))"
    using retry_reach_inv [OF m m1, of w] by blast
  from inv r res last show ?thesis by blast
qed

text \<open>
  With \<^verbatim>\<open>retries = 3\<close>: after one rejected check the final state is reached with a counter of
  at most 4, and when no check resolves the result is 4.
\<close>

theorem retry_counter_invariant_witness:
  "retry_reach (sample_world (sample_inputs ''3'') (Inr sample_credentials) None (fails_first 1))
     (sample_run_params (Num 3))
     (retry_loop (sample_world (sample_inputs ''3'') (Inr sample_credentials) None (fails_first 1))
        (sample_run_params (Num 3)) retry_init)
   \<and> currTry (retry_loop (sample_world (sample_inputs ''3'') (Inr sample_credentials) None (fails_first 1))
        (sample_run_params (Num 3)) retry_init) \<le> 3 + 1
   \<and> snd (retry (sample_world (sample_inputs ''3'') (Inr sample_credentials) None always_fails)
        (sample_run_params (Num 3))) = 3 + 1"
proof -
  let ?rp = "sample_run_params (Num 3)"
  let ?w = "sample_world (sample_inputs ''3'') (Inr sample_credentials) None (fails_first 1)"
  let ?v = "sample_world (sample_inputs ''3'') (Inr sample_credentials) None always_fails"
  have r: "retries ?rp = Num 3" by (simp add: sample_run_params_def)
  have one: "(1::int) \<le> 3" by simp
  note a = retry_counter_invariant [OF r one, of ?w]
  note b = retry_counter_invariant [OF r one, of ?v]
  have reach: "retry_reach ?w ?rp (retry_loop ?w ?rp retry_init)" using a by blast
  with a have le: "currTry (retry_loop ?w ?rp retry_init) \<le> 3 + 1" by blast
  have "\<not> isStable (retry_loop ?v ?rp retry_init)"
  proof
    assume st: "isStable (retry_loop ?v ?rp retry_init)"
    have "retry_reach ?v ?rp (retry_loop ?v ?rp retry_init)" using b by blast
    with b st have "\<not> isl (check_result ?v ?rp (waits (trace (retry_loop ?v ?rp retry_init)) - 1))"
      by blast
    then show False by (simp add: check_result_def sample_world_def always_fails_def)
  qed
  with b have "snd (retry ?v ?rp) = 3 + 1" by blast
  with reach le show ?thesis by blast
qed

section \<open>The claims about the entry point\<close>

text \<open>
  Claim C4. Once the parameters, the credentials and the connection are there, the entry
  point reports a failure exactly when the count that \<^verbatim>\<open>retry\<close> returns is greater than the
  configured \<^verbatim>\<open>retries\<close>: then the only failure message is
  \<^verbatim>\<open>Service is not stable after N retries!\<close> with \<open>N\<close> the configured \<^verbatim>\<open>retries\<close> (not the
  count), the process ends with exit code 1 and no output is set; otherwise no failure is
  reported and the exit code is 0.
\<close>

theorem main_failure_signal:
  assumes "snd (extractParams w) = Inr (Some p)"
    and "snd (assumeRoleInAccount w) = Inr c"
    and "snd (createEcsConnection w c) = Inr conn"
  shows "failures (main w) =
           (if js_gt (Num (snd (retry w (with_ecsConnection p conn)))) (retries p)
            then [''Service is not stable after '' @ js_toString (retries p) @ '' retries!'']
            else [])
       \<and> exit_code (main w) =
           (if js_gt (Num (snd (retry w (with_ecsConnection p conn)))) (retries p) then 1 else 0)
       \<and> (js_gt (Num (snd (retry w (with_ecsConnection p conn)))) (retries p) \<longrightarrow> outputs (main w) = [])"
  by (simp add: main_retry(1) [OF assms] assumeRoleInAccount_events createEcsConnection_events
        retry_quiet report_failures report_outputs exit_code_def not_stable_message_def
      del: js_toString.simps)

text \<open>
  With \<^verbatim>\<open>retries = 2\<close> and a check that never resolves, the run reports
  \<^verbatim>\<open>Service is not stable after 2 retries!\<close> and ends with exit code 1.
\<close>

theorem main_failure_signal_witness:
  "failures (main (sample_world (sample_inputs ''2'') (Inr sample_credentials) None always_fails)) =
     [''Service is not stable after 2 retries!'']
   \<and> exit_code (main (sample_world (sample_inputs ''2'') (Inr sample_credentials) None always_fails)) = 1"
proof -
  let ?w = "sample_world (sample_inputs ''2'') (Inr sample_credentials) None always_fails"
  have a: "snd (extractParams ?w) = Inr (Some (sample_params (Num 2)))"
    by (simp add: sample_extractParams sample_numbers)
  have b: "snd (assumeRoleInAccount ?w) =
             Inr \<lparr>accessKeyId = Some ''ASIAEXAMPLE'', secretAccessKey = Some ''secret'',
                  sessionToken = Some ''token'', region = ''eu-central-1''\<rparr>"
    by (simp add: sample_assumeRoleInAccount)
  have c: "snd (createEcsConnection ?w
             \<lparr>accessKeyId = Some ''ASIAEXAMPLE'', secretAccessKey = Some ''secret'',
              sessionToken = Some ''token'', region = ''eu-central-1''\<rparr>) = Inr sample_conn"
    by (simp add: sample_createEcsConnection)
  have r: "retries (sample_run_params (Num 2)) = Num 2" by (simp add: sample_run_params_def)
  have "currTry (retry_loop ?w (sample_run_params (Num 2)) retry_init) = 2 + 1"
    using retry_loop_exhausted [OF r, of ?w retry_init]
    by (simp add: sample_check_result always_fails_def retry_init_facts)
  then have n: "snd (retry ?w (sample_run_params (Num 2))) = 3"
    by (simp add: retry_results)
  have p: "retries (sample_params (Num 2)) = Num 2" by (simp add: sample_params_def)
  show ?thesis
    using main_failure_signal [OF a b c]
    by (simp add: sample_with_ecsConnection n p small_decimals del: js_toString.simps)
qed

text \<open>
  Claim C5. When the count that \<^verbatim>\<open>retry\<close> returns is at most the configured \<^verbatim>\<open>retries\<close>, that
  count is the number of stability checks the run has made, the last of which resolved; the
  entry point sets exactly one output, named \<^verbatim>\<open>retries\<close>, whose value is the decimal text of
  this number of attempts; no failure is reported and the exit code is 0.
\<close>

theorem main_success_output:
  assumes "snd (extractParams w) = Inr (Some p)"
    and "snd (assumeRoleInAccount w) = Inr c"
    and "snd (createEcsConnection w c) = Inr conn"
    and "retries p = Num m"
    and "snd (retry w (with_ecsConnection p conn)) \<le> m"
  shows "outputs (main w) = [(''retries'', js_toString (Num (int (waits (main w)))))]
       \<and> snd (retry w (with_ecsConnection p conn)) = int (waits (main w))
       \<and> 1 \<le> waits (main w)
       \<and> \<not> isl (check_result w (with_ecsConnection p conn) (waits (main w) - 1))
       \<and> (\<forall>i < waits (main w) - 1. isl (check_result w (with_ecsConnection p conn) i))
       \<and> failures (main w) = []
       \<and> exit_code (main w) = 0"
proof -
  let ?rp = "with_ecsConnection p conn"
  let ?f = "retry_loop w ?rp retry_init"
  have m: "retries ?rp = Num m" using assms(4) by simp
  have le: "currTry ?f \<le> m" using assms(5) by (simp add: retry_results)
  have m1: "1 \<le> m"
  proof (rule ccontr)
    assume "\<not> 1 \<le> m"
    then have "\<not> retry_cond ?rp retry_init" using m by (simp add: retry_cond_def retry_init_facts)
    then have "?f = retry_init" by (rule retry_loop_stop)
    with le \<open>\<not> 1 \<le> m\<close> show False by (simp add: retry_init_facts)
  qed
  have "\<not> retry_cond ?rp ?f" by (rule retry_loop_leaves)
  with le m have st: "isStable ?f" by (simp add: retry_cond_def)
  have r: "retry_reach w ?rp ?f" by (rule retry_loop_reach) (rule reach_init)
  note inv = retry_reach_inv [OF m m1 r]
  from inv st have c: "currTry ?f = int (waits (trace ?f))"
    and ok: "\<not> isl (check_result w ?rp (waits (trace ?f) - 1))" by simp_all
  from inv have one: "1 \<le> currTry ?f"
    and bad: "\<forall>i. int i < currTry ?f - 1 \<longrightarrow> isl (check_result w ?rp i)" by simp_all
  have wm: "waits (main w) = waits (trace ?f)"
    by (simp add: main_retry(1) [OF assms(1,2,3)] assumeRoleInAccount_events createEcsConnection_events
          report_waits retry_results)
  have n: "snd (retry w ?rp) = int (waits (main w))"
    using c wm by (simp add: retry_results)
  have "outputs (main w) = [(''retries'', js_toString (Num (snd (retry w ?rp))))]"
    using assms(4,5)
    by (simp add: main_retry(1) [OF assms(1,2,3)] assumeRoleInAccount_events createEcsConnection_events
          retry_quiet report_outputs del: js_toString.simps)
  then have out: "outputs (main w) = [(''retries'', js_toString (Num (int (waits (main w)))))]"
    by (simp only: n)
  have fl: "failures (main w) = []"
    using assms(4,5)
    by (simp add: main_retry(1) [OF assms(1,2,3)] assumeRoleInAccount_events createEcsConnection_events
          retry_quiet report_failures del: js_toString.simps)
  have "1 \<le> waits (main w)" using one c wm by simp
  moreover have "\<not> isl (check_result w ?rp (waits (main w) - 1))" using ok wm by simp
  moreover have "\<forall>i < waits (main w) - 1. isl (check_result w ?rp i)"
  proof (intro allI impI)
    fix i assume "i < waits (main w) - 1"
    then have "int i < currTry ?f - 1" using c wm by simp
    with bad show "isl (check_result w ?rp i)" by simp
  qed
  ultimately show ?thesis using out n fl by (simp add: exit_code_def)
qed

text \<open>
  With \<^verbatim>\<open>retries = 3\<close> and a check that is rejected twice and then resolves, the run makes 3
  checks, the only output is \<^verbatim>\<open>retries\<close> with the text \<^verbatim>\<open>3\<close>, and the exit code is 0.
\<close>

theorem main_success_output_witness:
  "outputs (main (sample_world (sample_inputs ''3'') (Inr sample_credentials) None (fails_first 2))) =
     [(''retries'', ''3'')]
   \<and> waits (main (sample_world (sample_inputs ''3'') (Inr sample_credentials) None (fails_first 2))) = 3
   \<and> failures (main (sample_world (sample_inputs ''3'') (Inr sample_credentials) None (fails_first 2))) = []
   \<and> exit_code (main (sample_world (sample_inputs ''3'') (Inr sample_credentials) None (fails_first 2))) = 0"
proof -
  let ?w = "sample_world (sample_inputs ''3'') (Inr sample_credentials) None (fails_first 2)"
  note st = sample_stage_results [of "''3''" "fails_first 2", unfolded sample_numbers]
  have r: "retries (sample_run_params (Num 3)) = Num 3" by (simp add: sample_run_params_def)
  have "currTry (retry_loop ?w (sample_run_params (Num 3)) retry_init) = int 3"
    using retry_loop_success [OF r, of 3 ?w retry_init]
    by (simp add: sample_check_result fails_first_def retry_init_facts)
  then have n: "snd (retry ?w (with_ecsConnection (sample_params (Num 3)) sample_conn)) = 3"
    by (simp add: retry_results sample_with_ecsConnection)
  have p: "retries (sample_params (Num 3)) = Num 3" by (simp add: sample_params_def)
  have le: "snd (retry ?w (with_ecsConnection (sample_params (Num 3)) sample_conn)) \<le> 3"
    using n by simp
  note t = main_success_output [OF st p le]
  from t n have w3: "waits (main ?w) = 3" by simp
  from t show ?thesis
    by (simp add: w3 small_decimals del: js_toString.simps)
qed

text \<open>
  Claim C9. When \<^verbatim>\<open>parseInt\<close> gives \<^verbatim>\<open>NaN\<close> for the \<^verbatim>\<open>retries\<close> input, the loop condition is
  false at once: \<^verbatim>\<open>retry\<close> returns 1 and makes no stability check. As \<^verbatim>\<open>1 > NaN\<close> is false
  too, the entry point sets the output \<^verbatim>\<open>retries\<close> to the text \<^verbatim>\<open>1\<close>, reports no failure and
  ends with exit code 0, although no check was made.
\<close>

theorem main_NaN_retries_succeeds_unchecked:
  assumes "snd (extractParams w) = Inr (Some p)"
    and "snd (assumeRoleInAccount w) = Inr c"
    and "snd (createEcsConnection w c) = Inr conn"
    and "parseInt10 w (getInput w ''retries'') = NaN"
  shows "retry w (with_ecsConnection p conn) = ([], 1)
       \<and> waits (main w) = 0
       \<and> outputs (main w) = [(''retries'', ''1'')]
       \<and> failures (main w) = []
       \<and> exit_code (main w) = 0"
proof -
  obtain tr1 where x: "extractParams w = (tr1, Inr (Some p))"
    using assms(1) by (cases "extractParams w") simp
  have nan: "retries (with_ecsConnection p conn) = NaN"
    using extractParams_Some(3) [OF x] assms(4) by simp
  have r: "retry w (with_ecsConnection p conn) = ([], 1)"
    using nan by (rule retry_NaN)
  show ?thesis
    using nan
    by (simp add: main_retry(1) [OF assms(1,2,3)] r assumeRoleInAccount_events createEcsConnection_events
          report_failures report_outputs report_waits exit_code_def small_decimals
        del: js_toString.simps)
qed

text \<open>
  With the \<^verbatim>\<open>retries\<close> input \<^verbatim>\<open>abc\<close> and a service that would never be stable, the run sends
  the role request, builds the connection and sets the output \<^verbatim>\<open>retries\<close> to \<^verbatim>\<open>1\<close>.
\<close>

theorem main_NaN_retries_succeeds_unchecked_witness:
  "main (sample_world (sample_inputs ''abc'') (Inr sample_credentials) None always_fails) =
     [StsSend \<lparr>sts_region = ''eu-west-1''\<rparr>
         \<lparr>RoleArn = ''arn:aws:iam::123456789012:role/deploy'', RoleSessionName = ''ecs-wait-action''\<rparr>,
      NewECS (config sample_conn),
      SetOutput ''retries'' ''1'']
   \<and> waits (main (sample_world (sample_inputs ''abc'') (Inr sample_credentials) None always_fails)) = 0
   \<and> exit_code (main (sample_world (sample_inputs ''abc'') (Inr sample_credentials) None always_fails)) = 0"
proof -
  let ?w = "sample_world (sample_inputs ''abc'') (Inr sample_credentials) None always_fails"
  note st = sample_stage_results [of "''abc''" always_fails, unfolded sample_numbers]
  have nan: "parseInt10 ?w (getInput ?w ''retries'') = NaN"
    by (simp add: sample_world_def sample_getInput_values sample_numbers)
  note t = main_NaN_retries_succeeds_unchecked [OF st nan]
  have "main ?w = [StsSend \<lparr>sts_region = ''eu-west-1''\<rparr>
         \<lparr>RoleArn = ''arn:aws:iam::123456789012:role/deploy'', RoleSessionName = ''ecs-wait-action''\<rparr>,
      NewECS (config sample_conn),
      SetOutput ''retries'' ''1'']"
    using t
    by (simp add: main_retry(1) [OF st] sample_assumeRoleInAccount sample_createEcsConnection
          report_def sample_with_ecsConnection sample_run_params_def small_decimals
        del: js_toString.simps)
  with t show ?thesis by simp
qed

text \<open>
  Claim C7. An error thrown by \<^verbatim>\<open>extractParams\<close>, a rejection of the role request and an
  error thrown by the ECS constructor each reach the handler of \<^verbatim>\<open>main\<close>, which reports the
  message of the error as a failure, and these are the only errors that reach it. The
  errors of the stability checks do not: replacing them by any other errors, with the same
  attempts rejected, changes neither the failures reported nor the outputs nor the number
  of checks.
\<close>

theorem main_error_propagation:
  "(\<forall>e. snd (extractParams w) = Inl e \<longrightarrow> main w = [SetFailed (message e)])
   \<and> (\<forall>e po. snd (extractParams w) = Inr po \<and> snd (assumeRoleInAccount w) = Inl e \<longrightarrow>
         main w = fst (extractParams w) @ fst (assumeRoleInAccount w) @ [SetFailed (message e)])
   \<and> (\<forall>e p c. snd (extractParams w) = Inr (Some p) \<and> snd (assumeRoleInAccount w) = Inr c \<and>
         snd (createEcsConnection w c) = Inl e \<longrightarrow>
         main w = fst (assumeRoleInAccount w) @ fst (createEcsConnection w c) @ [SetFailed (message e)])
   \<and> (\<forall>e. snd (main_try w) = Inl e \<longrightarrow>
         snd (extractParams w) = Inl e \<or> snd (assumeRoleInAccount w) = Inl e \<or>
         (\<exists>c. snd (assumeRoleInAccount w) = Inr c \<and> snd (createEcsConnection w c) = Inl e))
   \<and> (\<forall>f. (\<forall>i conn st cl sv. isl (f i conn st cl sv) = isl (waitFor w i conn st cl sv)) \<longrightarrow>
         failures (main (w\<lparr>waitFor := f\<rparr>)) = failures (main w) \<and>
         outputs (main (w\<lparr>waitFor := f\<rparr>)) = outputs (main w) \<and>
         waits (main (w\<lparr>waitFor := f\<rparr>)) = waits (main w))"
  using main_parse_error(1) [of w] main_credential_error(1) [of w] main_connection_error(1) [of w]
    main_try_error_source [of w] main_ignores_check_errors [of _ w]
  by blast

text \<open>
  An \<^verbatim>\<open>ecs-services\<close> input that is not JSON, a role request that is denied and a constructor
  that throws each end the run with the message of that error; with other errors from the
  stability checks the run reports the same failures.
\<close>

theorem main_error_propagation_witness:
  "main (sample_world inputs_with_bad_services (Inr sample_credentials) None always_fails) =
     [SetFailed ''Unexpected token in JSON'']
   \<and> main (sample_world (sample_inputs ''3'') (Inl access_denied) None always_fails) =
     [StsSend \<lparr>sts_region = ''eu-west-1''\<rparr>
         \<lparr>RoleArn = ''arn:aws:iam::123456789012:role/deploy'', RoleSessionName = ''ecs-wait-action''\<rparr>,
      SetFailed ''User is not authorized to perform: sts:AssumeRole'']
   \<and> main (sample_world (sample_inputs ''3'') (Inr sample_credentials) (Some bad_options) always_fails) =
     [StsSend \<lparr>sts_region = ''eu-west-1''\<rparr>
         \<lparr>RoleArn = ''arn:aws:iam::123456789012:role/deploy'', RoleSessionName = ''ecs-wait-action''\<rparr>,
      NewECS (config sample_conn),
      SetFailed ''Could not find API configuration'']
   \<and> snd (main_try (sample_world (sample_inputs ''3'') (Inl access_denied) None always_fails)) =
       Inl access_denied
   \<and> snd (assumeRoleInAccount (sample_world (sample_inputs ''3'') (Inl access_denied) None always_fails)) =
       Inl access_denied
   \<and> failures (main ((sample_world (sample_inputs ''2'') (Inr sample_credentials) None always_fails)
                        \<lparr>waitFor := \<lambda>i conn st cl sv. Inl timed_out\<rparr>)) =
       failures (main (sample_world (sample_inputs ''2'') (Inr sample_credentials) None always_fails))"
proof -
  let ?a = "sample_world inputs_with_bad_services (Inr sample_credentials) None always_fails"
  let ?b = "sample_world (sample_inputs ''3'') (Inl access_denied) None always_fails"
  let ?c = "sample_world (sample_inputs ''3'') (Inr sample_credentials) (Some bad_options) always_fails"
  let ?d = "sample_world (sample_inputs ''2'') (Inr sample_credentials) None always_fails"
  let ?cr = "\<lparr>accessKeyId = Some ''ASIAEXAMPLE'', secretAccessKey = Some ''secret'',
            sessionToken = Some ''token'', region = ''eu-central-1''\<rparr>"
  have a: "snd (extractParams ?a) = Inl (JsError ''Unexpected token in JSON'' ''undefined'')"
    by (simp add: extractParams_def sample_world_def sample_getInput_def inputs_with_bad_services_def
          sample_JSON_parse_def)
  have b1: "snd (extractParams ?b) = Inr (Some (sample_params (Num 3)))"
    by (simp add: sample_extractParams sample_numbers)
  have b2: "snd (assumeRoleInAccount ?b) = Inl access_denied"
    by (simp add: assumeRoleInAccount_def sample_world_def Let_def)
  have b3: "fst (extractParams ?b) = []" by (simp add: sample_extractParams)
  have b4: "fst (assumeRoleInAccount ?b) = [StsSend \<lparr>sts_region = ''eu-west-1''\<rparr>
         \<lparr>RoleArn = ''arn:aws:iam::123456789012:role/deploy'', RoleSessionName = ''ecs-wait-action''\<rparr>]"
    by (simp add: assumeRoleInAccount_events stsClient_options_def sample_world_def sample_getInput_values)
  have c1: "snd (extractParams ?c) = Inr (Some (sample_params (Num 3)))"
    by (simp add: sample_extractParams sample_numbers)
  have c2: "snd (assumeRoleInAccount ?c) = Inr ?cr" "fst (assumeRoleInAccount ?c) =
       [StsSend \<lparr>sts_region = ''eu-west-1''\<rparr>
         \<lparr>RoleArn = ''arn:aws:iam::123456789012:role/deploy'', RoleSessionName = ''ecs-wait-action''\<rparr>]"
    by (simp_all add: sample_assumeRoleInAccount)
  have c3: "snd (createEcsConnection ?c ?cr) = Inl bad_options"
    "fst (createEcsConnection ?c ?cr) = [NewECS (config sample_conn)]"
    by (simp_all add: createEcsConnection_def sample_world_def sample_conn_def Let_def)
  have d: "\<forall>i conn st cl sv. isl ((\<lambda>i conn st cl sv. Inl timed_out) i conn st cl sv :: js_error + unit) =
             isl (waitFor ?d i conn st cl sv)"
    by (simp add: sample_world_def always_fails_def)
  note ta = main_error_propagation [of ?a]
  note tb = main_error_propagation [of ?b]
  note tc = main_error_propagation [of ?c]
  note td = main_error_propagation [of ?d]
  from ta a have 1: "main ?a = [SetFailed ''Unexpected token in JSON'']" by simp
  from tb b1 b2 have "main ?b = fst (extractParams ?b) @ fst (assumeRoleInAccount ?b) @
      [SetFailed (message access_denied)]" by blast
  then have 2: "main ?b = [StsSend \<lparr>sts_region = ''eu-west-1''\<rparr>
         \<lparr>RoleArn = ''arn:aws:iam::123456789012:role/deploy'', RoleSessionName = ''ecs-wait-action''\<rparr>,
      SetFailed ''User is not authorized to perform: sts:AssumeRole'']"
    by (simp add: b3 b4 sample_messages)
  from tc c1 c2(1) c3(1) have "main ?c = fst (assumeRoleInAccount ?c) @ fst (createEcsConnection ?c ?cr) @
      [SetFailed (message bad_options)]" by blast
  then have 3: "main ?c = [StsSend \<lparr>sts_region = ''eu-west-1''\<rparr>
         \<lparr>RoleArn = ''arn:aws:iam::123456789012:role/deploy'', RoleSessionName = ''ecs-wait-action''\<rparr>,
      NewECS (config sample_conn),
      SetFailed ''Could not find API configuration'']"
    by (simp add: c2 c3 sample_messages)
  have 4: "snd (main_try ?b) = Inl access_denied"
    using main_credential_error(2) [OF b1 b2] .
  with tb have "snd (extractParams ?b) = Inl access_denied \<or> snd (assumeRoleInAccount ?b) = Inl access_denied \<or>
         (\<exists>c. snd (assumeRoleInAccount ?b) = Inr c \<and> snd (createEcsConnection ?b c) = Inl access_denied)"
    by blast
  with b1 b2 have 5: "snd (assumeRoleInAccount ?b) = Inl access_denied" by auto
  have 6: "failures (main (?d\<lparr>waitFor := \<lambda>i conn st cl sv. Inl timed_out\<rparr>)) = failures (main ?d)"
    using td [THEN conjunct2, THEN conjunct2, THEN conjunct2, THEN conjunct2, THEN spec,
              of "\<lambda>i conn st cl sv. Inl timed_out", THEN mp, OF d]
    by (rule conjunct1)
  from 1 2 3 4 5 6 show ?thesis by blast
qed

text \<open>
  Claim C8. Every \<^verbatim>\<open>waitFor\<close> call of a run is for the state \<^verbatim>\<open>servicesStable\<close>, with the
  \<^verbatim>\<open>ecs-cluster\<close> input as the cluster and with exactly the value that \<^verbatim>\<open>JSON.parse\<close> gave
  for the \<^verbatim>\<open>ecs-services\<close> input as the services: the parsed list is forwarded unchanged and
  in the same order.
\<close>

theorem services_forwarded_unchanged:
  assumes "WaitFor conn st cl sv \<in> set (main w)"
  shows "JSON_parse w (getInput w ''ecs-services'') = Inr sv
       \<and> cl = getInput w ''ecs-cluster''
       \<and> st = ''servicesStable''"
proof -
  from assms obtain p c where p: "snd (extractParams w) = Inr (Some p)"
    and ev: "st = ''servicesStable''" "cl = cluster p" "sv = services p"
    by (rule main_WaitFor)
  obtain tr1 where "extractParams w = (tr1, Inr (Some p))"
    using p by (cases "extractParams w") simp
  from extractParams_Some(2,4) [OF this] ev show ?thesis by simp
qed

text \<open>
  With the \<^verbatim>\<open>ecs-services\<close> input \<open>sample_services_text\<close>, the text of the array of
  \<^verbatim>\<open>svcA\<close> and \<^verbatim>\<open>svcB\<close>, the run calls \<^verbatim>\<open>waitFor\<close> with the list of these two names in this
  order.
\<close>

theorem services_forwarded_unchanged_witness:
  "getInput (sample_world (sample_inputs ''1'') (Inr sample_credentials) None (fails_first 0)) ''ecs-services''
     = sample_services_text
   \<and> WaitFor sample_conn ''servicesStable'' ''prod'' (JArray [JString ''svcA'', JString ''svcB''])
       \<in> set (main (sample_world (sample_inputs ''1'') (Inr sample_credentials) None (fails_first 0)))
   \<and> JSON_parse (sample_world (sample_inputs ''1'') (Inr sample_credentials) None (fails_first 0))
        sample_services_text = Inr (JArray [JString ''svcA'', JString ''svcB''])"
proof -
  let ?w = "sample_world (sample_inputs ''1'') (Inr sample_credentials) None (fails_first 0)"
  have i: "getInput ?w ''ecs-services'' = sample_services_text"
    by (simp add: sample_world_def sample_getInput_values)
  have m: "WaitFor sample_conn ''servicesStable'' ''prod'' (JArray [JString ''svcA'', JString ''svcB''])
       \<in> set (main ?w)"
    by (simp add: sample_main_first_try)
  from services_forwarded_unchanged [OF m] i m show ?thesis by simp
qed

text \<open>
  Claim C10. The credentials that \<^verbatim>\<open>assumeRoleInAccount\<close> returns always carry the region
  \<^verbatim>\<open>eu-central-1\<close>, whatever the inputs and the answer of the identity provider are; so every
  ECS connection a run builds, and every connection it waits on, has the region
  \<^verbatim>\<open>eu-central-1\<close>. The \<^verbatim>\<open>aws-region\<close> input is the region of the client that sends the role
  request, and that is its only use: changing a configured \<^verbatim>\<open>aws-region\<close> to another one
  changes nothing in the run but the region of that client, as long as the identity
  provider answers the same.
\<close>

theorem ecs_region_is_constant:
  "(\<forall>c. snd (assumeRoleInAccount w) = Inr c \<longrightarrow> region c = ''eu-central-1'')
   \<and> (\<forall>opts. NewECS opts \<in> set (main w) \<longrightarrow> ecs_region opts = ''eu-central-1'')
   \<and> (\<forall>conn st cl sv. WaitFor conn st cl sv \<in> set (main w) \<longrightarrow>
         ecs_region (config conn) = ''eu-central-1'')
   \<and> (\<forall>cfg cmd. StsSend cfg cmd \<in> set (main w) \<longrightarrow> sts_region cfg = getInput w ''aws-region'')
   \<and> (\<forall>r. getInput w ''aws-region'' \<noteq> [] \<and> r \<noteq> [] \<and>
          sts_send w \<lparr>sts_region = r\<rparr> = sts_send w \<lparr>sts_region = getInput w ''aws-region''\<rparr> \<longrightarrow>
          main (w\<lparr>getInput := (getInput w)(''aws-region'' := r)\<rparr>) = map (with_sts_region r) (main w))"
proof (intro conjI allI impI)
  fix c assume "snd (assumeRoleInAccount w) = Inr c"
  then show "region c = ''eu-central-1''" by (rule assumeRoleInAccount_region)
next
  fix opts assume "NewECS opts \<in> set (main w)"
  then obtain c where "snd (assumeRoleInAccount w) = Inr c" "ecs_region opts = region c"
    by (rule main_NewECS) simp
  then show "ecs_region opts = ''eu-central-1''" by (simp add: assumeRoleInAccount_region)
next
  fix conn st cl sv assume "WaitFor conn st cl sv \<in> set (main w)"
  then obtain p c where "snd (assumeRoleInAccount w) = Inr c" "snd (createEcsConnection w c) = Inr conn"
    by (rule main_WaitFor)
  then show "ecs_region (config conn) = ''eu-central-1''"
    using createEcsConnection_conn [of w c conn] by (simp add: assumeRoleInAccount_region)
next
  fix cfg cmd assume "StsSend cfg cmd \<in> set (main w)"
  then show "sts_region cfg = getInput w ''aws-region''"
    using main_StsSend(1) [of cfg cmd w] by (simp add: stsClient_options_def)
next
  fix r
  assume "getInput w ''aws-region'' \<noteq> [] \<and> r \<noteq> [] \<and>
          sts_send w \<lparr>sts_region = r\<rparr> = sts_send w \<lparr>sts_region = getInput w ''aws-region''\<rparr>"
  then show "main (w\<lparr>getInput := (getInput w)(''aws-region'' := r)\<rparr>) = map (with_sts_region r) (main w)"
    by (simp add: region_only_retargets_sts)
qed

text \<open>
  With \<^verbatim>\<open>aws-region = eu-west-1\<close> the connection is built for \<^verbatim>\<open>eu-central-1\<close> and the role
  request is sent by a client for \<^verbatim>\<open>eu-west-1\<close>; with \<^verbatim>\<open>us-east-1\<close> instead, only the client
  of the role request changes.
\<close>

theorem ecs_region_is_constant_witness:
  "region (\<lparr>accessKeyId = Some ''ASIAEXAMPLE'', secretAccessKey = Some ''secret'',
            sessionToken = Some ''token'', region = ''eu-central-1''\<rparr>) = ''eu-central-1''
   \<and> getInput (sample_world (sample_inputs ''1'') (Inr sample_credentials) None (fails_first 0)) ''aws-region''
       = ''eu-west-1''
   \<and> NewECS (config sample_conn)
       \<in> set (main (sample_world (sample_inputs ''1'') (Inr sample_credentials) None (fails_first 0)))
   \<and> ecs_region (config sample_conn) = ''eu-central-1''
   \<and> sts_region \<lparr>sts_region = ''eu-west-1''\<rparr> =
       getInput (sample_world (sample_inputs ''1'') (Inr sample_credentials) None (fails_first 0)) ''aws-region''
   \<and> main ((sample_world (sample_inputs ''1'') (Inr sample_credentials) None (fails_first 0))
        \<lparr>getInput := (getInput (sample_world (sample_inputs ''1'') (Inr sample_credentials) None
                          (fails_first 0)))(''aws-region'' := ''us-east-1'')\<rparr>) =
       [StsSend \<lparr>sts_region = ''us-east-1''\<rparr>
         \<lparr>RoleArn = ''arn:aws:iam::123456789012:role/deploy'', RoleSessionName = ''ecs-wait-action''\<rparr>,
        NewECS (config sample_conn),
        WaitFor sample_conn ''servicesStable'' ''prod'' (JArray [JString ''svcA'', JString ''svcB'']),
        SetOutput ''retries'' ''1'']"
proof -
  let ?w = "sample_world (sample_inputs ''1'') (Inr sample_credentials) None (fails_first 0)"
  let ?c = "\<lparr>accessKeyId = Some ''ASIAEXAMPLE'', secretAccessKey = Some ''secret'',
            sessionToken = Some ''token'', region = ''eu-central-1''\<rparr>"
  note t = ecs_region_is_constant [of ?w]
  have c: "snd (assumeRoleInAccount ?w) = Inr ?c" by (simp add: sample_assumeRoleInAccount)
  have n: "NewECS (config sample_conn) \<in> set (main ?w)" by (simp add: sample_main_first_try)
  have wf: "WaitFor sample_conn ''servicesStable'' ''prod'' (JArray [JString ''svcA'', JString ''svcB''])
       \<in> set (main ?w)" by (simp add: sample_main_first_try)
  have s: "StsSend \<lparr>sts_region = ''eu-west-1''\<rparr>
         \<lparr>RoleArn = ''arn:aws:iam::123456789012:role/deploy'', RoleSessionName = ''ecs-wait-action''\<rparr>
       \<in> set (main ?w)" by (simp add: sample_main_first_try)
  have g: "getInput ?w ''aws-region'' = ''eu-west-1''"
    by (simp add: sample_world_def sample_getInput_values)
  have h: "getInput ?w ''aws-region'' \<noteq> [] \<and> ''us-east-1'' \<noteq> [] \<and>
          sts_send ?w \<lparr>sts_region = ''us-east-1''\<rparr> = sts_send ?w \<lparr>sts_region = getInput ?w ''aws-region''\<rparr>"
    by (simp add: sample_world_def sample_getInput_values)
  from t c have 1: "region ?c = ''eu-central-1''" by blast
  from t n have 2: "ecs_region (config sample_conn) = ''eu-central-1''" by blast
  from t wf have 3: "ecs_region (config sample_conn) = ''eu-central-1''" by blast
  from t s have 4: "sts_region \<lparr>sts_region = ''eu-west-1''\<rparr> = getInput ?w ''aws-region''" by blast
  from t h have "main (?w\<lparr>getInput := (getInput ?w)(''aws-region'' := ''us-east-1'')\<rparr>) =
      map (with_sts_region ''us-east-1'') (main ?w)" by blast
  then have 5: "main (?w\<lparr>getInput := (getInput ?w)(''aws-region'' := ''us-east-1'')\<rparr>) =
       [StsSend \<lparr>sts_region = ''us-east-1''\<rparr>
         \<lparr>RoleArn = ''arn:aws:iam::123456789012:role/deploy'', RoleSessionName = ''ecs-wait-action''\<rparr>,
        NewECS (config sample_conn),
        WaitFor sample_conn ''servicesStable'' ''prod'' (JArray [JString ''svcA'', JString ''svcB'']),
        SetOutput ''retries'' ''1'']"
    by (simp add: sample_main_first_try)
  from 1 g n 2 4 5 show ?thesis by blast
qed

text \<open>
  Claim C3 says that a run without \<^verbatim>\<open>role-to-assume\<close> ends at once with a configuration
  failure and attempts no network call, in particular not the request for credentials.
  The entry point calls \<^verbatim>\<open>assumeRoleInAccount\<close> (line 117) before it tests the parameters
  against \<^verbatim>\<open>null\<close> (line 120), so the run does send the role request: with the region given
  and \<^verbatim>\<open>role-to-assume\<close> not given, the module loads, \<^verbatim>\<open>extractParams\<close> reports the
  configuration failure, the request then goes out with an empty \<^verbatim>\<open>RoleArn\<close>, and the
  rejection of the identity provider is reported as a second failure. No connection is
  built and no stability check is made.
\<close>

theorem main_without_role_requests_credentials:
  "main (sample_world inputs_without_role (Inl role_rejected) None always_fails) =
     [SetFailed ''AWS credentials were not found in inputs or environment variables.'',
      StsSend \<lparr>sts_region = ''eu-west-1''\<rparr> \<lparr>RoleArn = [], RoleSessionName = ''ecs-wait-action''\<rparr>,
      SetFailed ''Value at roleArn failed to satisfy constraint'']
   \<and> action (sample_world inputs_without_role (Inl role_rejected) None always_fails) =
       Inr (main (sample_world inputs_without_role (Inl role_rejected) None always_fails))"
proof -
  let ?w = "sample_world inputs_without_role (Inl role_rejected) None always_fails"
  have m: "main ?w =
     [SetFailed ''AWS credentials were not found in inputs or environment variables.'',
      StsSend \<lparr>sts_region = ''eu-west-1''\<rparr> \<lparr>RoleArn = [], RoleSessionName = ''ecs-wait-action''\<rparr>,
      SetFailed ''Value at roleArn failed to satisfy constraint'']"
    by (simp add: main_def main_try_def extractParams_def assumeRoleInAccount_def stsClient_options_def
          sample_world_def sample_getInput_def inputs_without_role_def
          sample_services_parsed falsy_def role_rejected_def Let_def)
  have "stsClient ?w = Inr \<lparr>sts_region = ''eu-west-1''\<rparr>"
    by (simp add: stsClient_def stsClient_options_def sample_world_def sample_getInput_def
          inputs_without_role_def)
  then have "action ?w = Inr (main ?w)" by (simp add: action_def)
  with m show ?thesis by simp
qed

end
